theory Spec2Isabelle
  imports Complex_Main "HOL-Library.AList" "HOL-Library.Sublist"
begin

section \<open>Shared types (shared/types.ts)\<close>

text \<open>
  The closed enumeration \<open>ALL_TAGS\<close>. The source spells the tags in upper-kebab case
  (\<open>"WEB-REACT"\<close>); the constructors use underscores, and the machine-learning tag
  \<open>"ML"\<close> is written \<open>MLEARN\<close>.
\<close>

datatype Tag =
    UNIVERSAL | WEB_REACT | WEB_STATIC | API | DATA_PIPELINE | MLEARN | HEALTHCARE
  | FINTECH | WEB3 | REALTIME | STATE_MACHINE | GAME | SOCIAL | CLI | LIBRARY | INFRA
  | MOBILE | ANALYTICS

datatype ContentTier = Core | Recommended | Optional

text \<open>
  The fragment kinds. A field that TypeScript marks optional (\<open>tier?\<close>,
  \<open>description?\<close>) is an \<open>option\<close>. Field names carry a prefix per record, since
  the source reuses \<open>id\<close>, \<open>title\<close>, \<open>tier\<close> and \<open>blocks\<close> across interfaces.
\<close>

record ClaudeMdBlock =
  cm_id :: string
  cm_title :: string
  cm_content :: string
  cm_tier :: "ContentTier option"

record InstructionTemplate =
  it_tag :: Tag
  it_section :: string
  it_blocks :: "ClaudeMdBlock list"

record StructureEntry =
  se_path :: string
  se_type :: string
  se_description :: "string option"
  se_template :: "string option"

record StructureTemplate =
  st_tag :: Tag
  st_section :: string
  st_language :: "string option"
  st_entries :: "StructureEntry list"

record NfrBlock =
  nfr_id :: string
  nfr_title :: string
  nfr_content :: string
  nfr_tier :: "ContentTier option"

record NfrTemplate =
  nt_tag :: Tag
  nt_section :: string
  nt_blocks :: "NfrBlock list"

record HookTemplate =
  hk_name :: string
  hk_trigger :: string
  hk_description :: string
  hk_filename :: string
  hk_script :: string

record ReviewChecklistItem =
  rci_id :: string
  rci_description :: string
  rci_severity :: string

record ReviewBlock =
  rv_id :: string
  rv_dimension :: string
  rv_title :: string
  rv_description :: string
  rv_checklist :: "ReviewChecklistItem list"
  rv_tier :: "ContentTier option"

record ReviewTemplate =
  rt_tag :: Tag
  rt_section :: string
  rt_blocks :: "ReviewBlock list"

text \<open>
  The keys of the template map. The loader computes a key as \<open>mapping[dirName] ?? null\<close>
  on an object literal, so besides the eighteen tags a key can be a member that the
  literal inherits from \<open>Object.prototype\<close> (the function \<open>Object\<close> for the directory name
  \<open>constructor\<close>, and so on). \<open>Known\<close> is a tag; \<open>Inherited n\<close> is the inherited member
  named \<open>n\<close>. Members of different names are different values, and none is a tag.
\<close>

datatype TagKey = Known Tag | Inherited string

text \<open>
  \<open>TagTemplateSet\<close>: all fragments of one tag. The loader fills \<open>instructions\<close>;
  \<open>claudeMd\<close> is the older name of that field. Its \<open>tag\<close> is the key it was loaded under.
\<close>

record TagTemplateSet =
  ts_tag :: TagKey
  ts_instructions :: "InstructionTemplate option"
  ts_nfr :: "NfrTemplate option"
  ts_structure :: "StructureTemplate option"
  ts_hooks :: "HookTemplate list option"
  ts_review :: "ReviewTemplate option"
  ts_claudeMd :: "InstructionTemplate option"

text \<open>
  \<open>ForgeCraftConfig\<close>, restricted to the fields the composer, the loader and the
  refresh tool read. \<open>include\<close> and \<open>exclude\<close> are block-id lists.
\<close>

record ForgeCraftConfig =
  cfg_tags :: "Tag list option"
  cfg_tier :: "ContentTier option"
  cfg_include :: "string list option"
  cfg_exclude :: "string list option"
  cfg_templateDirs :: "string list option"

text \<open>
  A JavaScript \<open>Map<Tag, TagTemplateSet>\<close> is an association list in insertion order:
  \<open>get\<close> is \<open>map_of\<close>, and \<open>set\<close> is \<open>AList.update\<close>, which replaces the value of a key
  already present in place and appends a new key at the end. A lookup by a tag finds
  the entry under the key \<open>Known\<close> of that tag.
\<close>

type_synonym TemplateMap = "(TagKey \<times> TagTemplateSet) list"

section \<open>The composer (registry/composer.ts)\<close>

fun TIER_HIERARCHY :: "ContentTier \<Rightarrow> ContentTier list" where
  "TIER_HIERARCHY Core = [Core]"
| "TIER_HIERARCHY Recommended = [Core, Recommended]"
| "TIER_HIERARCHY Optional = [Core, Recommended, Optional]"

definition DEFAULT_TIER :: ContentTier where
  "DEFAULT_TIER = Recommended"

record ComposedTemplates =
  claudeMdBlocks :: "ClaudeMdBlock list"
  structureEntries :: "StructureEntry list"
  nfrBlocks :: "NfrBlock list"
  hooks :: "HookTemplate list"
  reviewBlocks :: "ReviewBlock list"

record ComposeOptions =
  config :: "ForgeCraftConfig option"

definition isTierAllowed :: "ContentTier option \<Rightarrow> ContentTier set \<Rightarrow> bool" where
  "isTierAllowed blockTier allowedTiers =
     ((case blockTier of None \<Rightarrow> Core | Some t \<Rightarrow> t) \<in> allowedTiers)"

definition isBlockAllowed :: "string \<Rightarrow> string list option \<Rightarrow> string list option \<Rightarrow> bool" where
  "isBlockAllowed blockId includeList excludeList =
     (if (case excludeList of None \<Rightarrow> False | Some ex \<Rightarrow> blockId \<in> set ex) then False
      else (case includeList of
              None \<Rightarrow> True
            | Some inc \<Rightarrow> if 0 < length inc then blockId \<in> set inc else True))"

text \<open>
  \<open>normalizeTagOrder\<close>: \<open>seen\<close> and \<open>result\<close> are threaded through the loop over
  \<open>tags\<close>; UNIVERSAL is pushed up front only when \<open>tags\<close> does not include it.
\<close>

fun normalizeLoop :: "Tag list \<Rightarrow> Tag set \<times> Tag list \<Rightarrow> Tag set \<times> Tag list" where
  "normalizeLoop [] st = st"
| "normalizeLoop (tag # tags) (seen, result) =
     (if tag \<notin> seen then normalizeLoop tags (insert tag seen, result @ [tag])
      else normalizeLoop tags (seen, result))"

definition normalizeTagOrder :: "Tag list \<Rightarrow> Tag list" where
  "normalizeTagOrder tags =
     snd (normalizeLoop tags
            (if UNIVERSAL \<notin> set tags then ({UNIVERSAL}, [UNIVERSAL]) else ({}, [])))"

text \<open>
  One inner loop of \<open>composeTemplates\<close>: each fragment is pushed when its key is not in
  the kind's seen set and \<open>ok\<close> holds, and its key is then added to the seen set. The
  state is the pair of the seen set and the output array of that kind.
\<close>

fun admitLoop :: "('b \<Rightarrow> string) \<Rightarrow> ('b \<Rightarrow> bool) \<Rightarrow> 'b list \<Rightarrow>
    string set \<times> 'b list \<Rightarrow> string set \<times> 'b list" where
  "admitLoop key ok [] st = st"
| "admitLoop key ok (b # bs) (seen, out) =
     (if key b \<notin> seen \<and> ok b then admitLoop key ok bs (insert (key b) seen, out @ [b])
      else admitLoop key ok bs (seen, out))"

text \<open>
  The ten local variables of \<open>composeTemplates\<close>, grouped per kind as (seen set,
  output array).
\<close>

record ComposeState =
  acc_claudeMd :: "string set \<times> ClaudeMdBlock list"
  acc_structure :: "string set \<times> StructureEntry list"
  acc_nfr :: "string set \<times> NfrBlock list"
  acc_hooks :: "string set \<times> HookTemplate list"
  acc_review :: "string set \<times> ReviewBlock list"

text \<open>
  The two revisions of the composer in the repository differ in one expression, the
  template whose blocks the first inner loop reads: \<open>registry/composer.ts\<close> reads
  \<open>templateSet.claudeMd\<close>, its later revision (which the refresh tool calls: it also
  returns the blocks under the name \<open>instructionBlocks\<close>) reads
  \<open>templateSet.instructions ?? templateSet.claudeMd\<close>. The loops below take that
  expression as the parameter \<open>instrSource\<close>.
\<close>

definition instructionsOrClaudeMd :: "TagTemplateSet \<Rightarrow> InstructionTemplate option" where
  "instructionsOrClaudeMd templateSet =
     (case ts_instructions templateSet of
        None \<Rightarrow> ts_claudeMd templateSet
      | Some t \<Rightarrow> Some t)"

text \<open>
  The body of the loop over the ordered tags for a tag that has a template set. The
  claudeMd, nfr and review loops test the seen set, the tier and the include/exclude
  lists; the structure and hooks loops test the seen set only.
\<close>

definition composeTag :: "(TagTemplateSet \<Rightarrow> InstructionTemplate option) \<Rightarrow>
    ContentTier set \<Rightarrow> string list option \<Rightarrow> string list option \<Rightarrow>
    TagTemplateSet \<Rightarrow> ComposeState \<Rightarrow> ComposeState" where
  "composeTag instrSource allowedTiers includeList excludeList templateSet s =
     \<lparr> acc_claudeMd =
         (case instrSource templateSet of
            None \<Rightarrow> acc_claudeMd s
          | Some t \<Rightarrow> admitLoop cm_id
              (\<lambda>block. isTierAllowed (cm_tier block) allowedTiers
                       \<and> isBlockAllowed (cm_id block) includeList excludeList)
              (it_blocks t) (acc_claudeMd s)),
       acc_structure =
         (case ts_structure templateSet of
            None \<Rightarrow> acc_structure s
          | Some t \<Rightarrow> admitLoop se_path (\<lambda>entry. True) (st_entries t) (acc_structure s)),
       acc_nfr =
         (case ts_nfr templateSet of
            None \<Rightarrow> acc_nfr s
          | Some t \<Rightarrow> admitLoop nfr_id
              (\<lambda>block. isTierAllowed (nfr_tier block) allowedTiers
                       \<and> isBlockAllowed (nfr_id block) includeList excludeList)
              (nt_blocks t) (acc_nfr s)),
       acc_hooks =
         (case ts_hooks templateSet of
            None \<Rightarrow> acc_hooks s
          | Some hs \<Rightarrow> admitLoop hk_name (\<lambda>hook. True) hs (acc_hooks s)),
       acc_review =
         (case ts_review templateSet of
            None \<Rightarrow> acc_review s
          | Some t \<Rightarrow> admitLoop rv_id
              (\<lambda>block. isTierAllowed (rv_tier block) allowedTiers
                       \<and> isBlockAllowed (rv_id block) includeList excludeList)
              (rt_blocks t) (acc_review s)) \<rparr>"

text \<open>
  The loop over the ordered tags: a tag without a template set is logged and skipped.
\<close>

fun composeLoop :: "(TagTemplateSet \<Rightarrow> InstructionTemplate option) \<Rightarrow>
    ContentTier set \<Rightarrow> string list option \<Rightarrow> string list option \<Rightarrow>
    TemplateMap \<Rightarrow> Tag list \<Rightarrow> ComposeState \<Rightarrow> ComposeState" where
  "composeLoop instrSource allowedTiers includeList excludeList allTemplates [] s = s"
| "composeLoop instrSource allowedTiers includeList excludeList allTemplates (tag # tags) s =
     (case map_of allTemplates (Known tag) of
        None \<Rightarrow> composeLoop instrSource allowedTiers includeList excludeList allTemplates tags s
      | Some templateSet \<Rightarrow>
          composeLoop instrSource allowedTiers includeList excludeList allTemplates tags
            (composeTag instrSource allowedTiers includeList excludeList templateSet s))"

definition initialState :: ComposeState where
  "initialState =
     \<lparr> acc_claudeMd = ({}, []), acc_structure = ({}, []), acc_nfr = ({}, []),
       acc_hooks = ({}, []), acc_review = ({}, []) \<rparr>"

text \<open>
  \<open>options?.config\<close>, \<open>config?.tier ?? DEFAULT_TIER\<close>, \<open>config?.include\<close> and
  \<open>config?.exclude\<close>: an absent options object or config gives the defaults.
\<close>

definition optConfig :: "ComposeOptions option \<Rightarrow> ForgeCraftConfig option" where
  "optConfig options = (case options of None \<Rightarrow> None | Some opts \<Rightarrow> config opts)"

definition tierLevelOf :: "ForgeCraftConfig option \<Rightarrow> ContentTier" where
  "tierLevelOf c =
     (case c of
        None \<Rightarrow> DEFAULT_TIER
      | Some cf \<Rightarrow> (case cfg_tier cf of None \<Rightarrow> DEFAULT_TIER | Some t \<Rightarrow> t))"

definition includeListOf :: "ForgeCraftConfig option \<Rightarrow> string list option" where
  "includeListOf c = (case c of None \<Rightarrow> None | Some cf \<Rightarrow> cfg_include cf)"

definition excludeListOf :: "ForgeCraftConfig option \<Rightarrow> string list option" where
  "excludeListOf c = (case c of None \<Rightarrow> None | Some cf \<Rightarrow> cfg_exclude cf)"

definition composeWith :: "(TagTemplateSet \<Rightarrow> InstructionTemplate option) \<Rightarrow>
    Tag list \<Rightarrow> TemplateMap \<Rightarrow> ComposeOptions option \<Rightarrow> ComposedTemplates" where
  "composeWith instrSource activeTags allTemplates options =
     (let cf = optConfig options;
          tierLevel = tierLevelOf cf;
          allowedTiers = set (TIER_HIERARCHY tierLevel);
          includeList = includeListOf cf;
          excludeList = excludeListOf cf;
          orderedTags = normalizeTagOrder activeTags;
          s = composeLoop instrSource allowedTiers includeList excludeList allTemplates
                orderedTags initialState
      in \<lparr> claudeMdBlocks = snd (acc_claudeMd s),
           structureEntries = snd (acc_structure s),
           nfrBlocks = snd (acc_nfr s),
           hooks = snd (acc_hooks s),
           reviewBlocks = snd (acc_review s) \<rparr>)"

text \<open>\<open>composeTemplates\<close> of \<open>registry/composer.ts\<close>.\<close>

definition composeTemplates :: "Tag list \<Rightarrow> TemplateMap \<Rightarrow> ComposeOptions option \<Rightarrow>
    ComposedTemplates" where
  "composeTemplates activeTags allTemplates options =
     composeWith ts_claudeMd activeTags allTemplates options"

text \<open>
  \<open>composeTemplates\<close> of the later revision; its result field \<open>instructionBlocks\<close> is
  the array that \<open>claudeMdBlocks\<close> names.
\<close>

definition composeTemplates_rev :: "Tag list \<Rightarrow> TemplateMap \<Rightarrow> ComposeOptions option \<Rightarrow>
    ComposedTemplates" where
  "composeTemplates_rev activeTags allTemplates options =
     composeWith instructionsOrClaudeMd activeTags allTemplates options"

text \<open>
  The fragments of one kind that the loop over the ordered tags visits, in order: for
  each tag that has a template set, the fragments \<open>sel\<close> reads from it.
\<close>

fun visited :: "(TagTemplateSet \<Rightarrow> 'b list) \<Rightarrow> TemplateMap \<Rightarrow> Tag list \<Rightarrow> 'b list" where
  "visited sel allTemplates [] = []"
| "visited sel allTemplates (tag # tags) =
     (case map_of allTemplates (Known tag) of
        None \<Rightarrow> visited sel allTemplates tags
      | Some templateSet \<Rightarrow> sel templateSet @ visited sel allTemplates tags)"

definition instructionBlocksOf :: "(TagTemplateSet \<Rightarrow> InstructionTemplate option) \<Rightarrow>
    TagTemplateSet \<Rightarrow> ClaudeMdBlock list" where
  "instructionBlocksOf instrSource templateSet =
     (case instrSource templateSet of None \<Rightarrow> [] | Some t \<Rightarrow> it_blocks t)"

definition structureOf :: "TagTemplateSet \<Rightarrow> StructureEntry list" where
  "structureOf templateSet =
     (case ts_structure templateSet of None \<Rightarrow> [] | Some t \<Rightarrow> st_entries t)"

definition nfrOf :: "TagTemplateSet \<Rightarrow> NfrBlock list" where
  "nfrOf templateSet = (case ts_nfr templateSet of None \<Rightarrow> [] | Some t \<Rightarrow> nt_blocks t)"

definition hooksOf :: "TagTemplateSet \<Rightarrow> HookTemplate list" where
  "hooksOf templateSet = (case ts_hooks templateSet of None \<Rightarrow> [] | Some hs \<Rightarrow> hs)"

definition reviewOf :: "TagTemplateSet \<Rightarrow> ReviewBlock list" where
  "reviewOf templateSet =
     (case ts_review templateSet of None \<Rightarrow> [] | Some t \<Rightarrow> rt_blocks t)"

text \<open>The test of the three tier-filtered loops, after the seen-set test.\<close>

definition gate :: "ContentTier set \<Rightarrow> string list option \<Rightarrow> string list option \<Rightarrow>
    ContentTier option \<Rightarrow> string \<Rightarrow> bool" where
  "gate allowedTiers includeList excludeList blockTier blockId =
     (isTierAllowed blockTier allowedTiers \<and> isBlockAllowed blockId includeList excludeList)"

definition allowedOf :: "ComposeOptions option \<Rightarrow> ContentTier set" where
  "allowedOf options = set (TIER_HIERARCHY (tierLevelOf (optConfig options)))"

text \<open>The options that carry the configuration \<open>c\<close> with its tier set to \<open>t\<close>.\<close>

definition atTier :: "ForgeCraftConfig \<Rightarrow> ContentTier \<Rightarrow> ComposeOptions option" where
  "atTier c t = Some \<lparr> config = Some (c\<lparr> cfg_tier := Some t \<rparr>) \<rparr>"

section \<open>The loader (registry/loader.ts)\<close>

text \<open>
  What the loader throws: its own \<open>TemplateParseError\<close> (file path, reason), and the
  errors of \<open>readdirSync\<close> on a path where there is nothing (\<open>ENOENT\<close>) or where there is
  a plain file (\<open>ENOTDIR\<close>).
\<close>

datatype error = TemplateParseError string string | ENOENT string | ENOTDIR string

text \<open>
  What \<open>readFileSync\<close> followed by \<open>yaml.load\<close> does on a file: it throws with a
  message (the file is unreadable or is not well-formed YAML), it yields a falsy value
  (an empty document parses to \<open>undefined\<close>), or it yields a document, which the
  source casts to the expected type.
\<close>

datatype 'a YamlSource = Malformed string | Falsy | Document 'a

definition loadYamlFile :: "string \<Rightarrow> 'a YamlSource \<Rightarrow> error + 'a" where
  "loadYamlFile filePath src =
     (case src of
        Malformed message \<Rightarrow> Inl (TemplateParseError filePath message)
      | Falsy \<Rightarrow> Inl (TemplateParseError filePath ''YAML parsed to null/undefined'')
      | Document parsed \<Rightarrow> Inr parsed)"

record HooksYamlFile =
  hy_tag :: string
  hy_section :: string
  hy_hooks :: "HookTemplate list"

text \<open>
  A tag directory: for each file name the loader looks for, \<open>None\<close> when the file does
  not exist (\<open>existsSync\<close> is false) and its source otherwise.
\<close>

record TagDir =
  instructions_yaml :: "InstructionTemplate YamlSource option"
  claude_md_yaml :: "InstructionTemplate YamlSource option"
  nfr_yaml :: "NfrTemplate YamlSource option"
  structure_yaml :: "StructureTemplate YamlSource option"
  hooks_yaml :: "HooksYamlFile YamlSource option"
  review_yaml :: "ReviewTemplate YamlSource option"

text \<open>
  A templates directory is the list of its subdirectories in \<open>readdirSync\<close> order. At a
  path of the file system there is nothing, a plain file, or a directory. The functions
  \<open>join\<close> and \<open>resolve\<close> of Node's path module are taken as they are, as parameters:
  \<open>resolve\<close> makes a path absolute against the working directory of the process.
\<close>

type_synonym TemplatesDir = "(string \<times> TagDir) list"

datatype FsNode = PlainFile | Directory TemplatesDir

record FileSystem =
  fs_join :: "string \<Rightarrow> string \<Rightarrow> string"
  fs_resolve :: "string \<Rightarrow> string"
  fs_node :: "string \<Rightarrow> FsNode option"

definition existsSync :: "FileSystem \<Rightarrow> string \<Rightarrow> bool" where
  "existsSync fs p = (fs_node fs p \<noteq> None)"

text \<open>A thrown error leaves the function: the rest runs only on a returned value.\<close>

definition andThen :: "error + 'a \<Rightarrow> ('a \<Rightarrow> error + 'b) \<Rightarrow> error + 'b" where
  "andThen r f = (case r of Inl e \<Rightarrow> Inl e | Inr v \<Rightarrow> f v)"

text \<open>\<open>if (existsSync(p)) x = loadYamlFile(p)\<close>, with \<open>x\<close> undefined before.\<close>

definition loadIfExists :: "string \<Rightarrow> 'a YamlSource option \<Rightarrow> error + 'a option" where
  "loadIfExists filePath file =
     (case file of
        None \<Rightarrow> Inr None
      | Some src \<Rightarrow> andThen (loadYamlFile filePath src) (\<lambda>parsed. Inr (Some parsed)))"

definition loadTagTemplateSet ::
    "FileSystem \<Rightarrow> TagKey \<Rightarrow> string \<Rightarrow> TagDir \<Rightarrow> error + TagTemplateSet" where
  "loadTagTemplateSet fs tag tagDir d =
     andThen (loadIfExists (fs_join fs tagDir ''instructions.yaml'') (instructions_yaml d))
       (\<lambda>instructions0.
     andThen (case instructions0 of
                Some i \<Rightarrow> Inr (Some i)
              | None \<Rightarrow> loadIfExists (fs_join fs tagDir ''claude-md.yaml'') (claude_md_yaml d))
       (\<lambda>instructions.
     andThen (loadIfExists (fs_join fs tagDir ''nfr.yaml'') (nfr_yaml d))
       (\<lambda>nfr.
     andThen (loadIfExists (fs_join fs tagDir ''structure.yaml'') (structure_yaml d))
       (\<lambda>structure.
     andThen (loadIfExists (fs_join fs tagDir ''hooks.yaml'') (hooks_yaml d))
       (\<lambda>hooksFile.
     andThen (loadIfExists (fs_join fs tagDir ''review.yaml'') (review_yaml d))
       (\<lambda>review.
     Inr \<lparr> ts_tag = tag, ts_instructions = instructions, ts_nfr = nfr,
           ts_structure = structure, ts_hooks = map_option hy_hooks hooksFile,
           ts_review = review, ts_claudeMd = None \<rparr>))))))"

text \<open>
  The property names of \<open>Object.prototype\<close> in Node. Each names a function or, for
  \<open>__proto__\<close>, an object: a value that \<open>?? null\<close> keeps and \<open>!tag\<close> does not reject.
\<close>

definition OBJECT_PROTOTYPE_MEMBERS :: "string list" where
  "OBJECT_PROTOTYPE_MEMBERS =
     [''constructor'', ''__defineGetter__'', ''__defineSetter__'', ''hasOwnProperty'',
      ''__lookupGetter__'', ''__lookupSetter__'', ''isPrototypeOf'',
      ''propertyIsEnumerable'', ''toString'', ''valueOf'', ''__proto__'', ''toLocaleString'']"

text \<open>
  \<open>mapping[dirName] ?? null\<close>: an own property of the literal first, then a member
  inherited from \<open>Object.prototype\<close>, else \<open>null\<close>.
\<close>

definition tagDirNameToTag :: "string \<Rightarrow> TagKey option" where
  "tagDirNameToTag dirName =
     (case map_of
        [(''universal'', UNIVERSAL), (''web-react'', WEB_REACT), (''web-static'', WEB_STATIC),
         (''api'', API), (''data-pipeline'', DATA_PIPELINE), (''ml'', MLEARN),
         (''healthcare'', HEALTHCARE), (''fintech'', FINTECH), (''web3'', WEB3),
         (''realtime'', REALTIME), (''state-machine'', STATE_MACHINE), (''game'', GAME),
         (''social'', SOCIAL), (''cli'', CLI), (''library'', LIBRARY), (''infra'', INFRA),
         (''mobile'', MOBILE), (''analytics'', ANALYTICS)]
        dirName of
        Some tag \<Rightarrow> Some (Known tag)
      | None \<Rightarrow>
          if dirName \<in> set OBJECT_PROTOTYPE_MEMBERS then Some (Inherited dirName) else None)"

text \<open>
  The loop of \<open>loadAllTemplates\<close> over the tag directories: a directory name for which
  \<open>tagDirNameToTag\<close> gives \<open>null\<close> is skipped with a warning; nothing catches what
  \<open>loadTagTemplateSet\<close> throws.
\<close>

fun loadTagDirs :: "FileSystem \<Rightarrow> string \<Rightarrow> TemplatesDir \<Rightarrow> TemplateMap \<Rightarrow>
    error + TemplateMap" where
  "loadTagDirs fs dir [] result = Inr result"
| "loadTagDirs fs dir ((tagDirName, d) # rest) result =
     (case tagDirNameToTag tagDirName of
        None \<Rightarrow> loadTagDirs fs dir rest result
      | Some tag \<Rightarrow>
          andThen (loadTagTemplateSet fs tag (fs_join fs dir tagDirName) d)
            (\<lambda>templateSet. loadTagDirs fs dir rest (AList.update tag templateSet result)))"

text \<open>
  \<open>loadAllTemplates\<close> on a given directory path (\<open>resolveTemplatesDir\<close>, which reads the
  process environment when no path is given, is left to the caller); \<open>readdirSync\<close>
  throws when there is no directory at the path.
\<close>

definition loadAllTemplates :: "FileSystem \<Rightarrow> string \<Rightarrow> error + TemplateMap" where
  "loadAllTemplates fs dir =
     (case fs_node fs dir of
        None \<Rightarrow> Inl (ENOENT dir)
      | Some PlainFile \<Rightarrow> Inl (ENOTDIR dir)
      | Some (Directory tagDirs) \<Rightarrow> loadTagDirs fs dir tagDirs [])"

definition mergeInstructionTemplates ::
    "InstructionTemplate option \<Rightarrow> InstructionTemplate option \<Rightarrow> InstructionTemplate option" where
  "mergeInstructionTemplates base extra =
     (case extra of
        None \<Rightarrow> base
      | Some ex \<Rightarrow>
          (case base of
             None \<Rightarrow> Some ex
           | Some ba \<Rightarrow>
               Some (ba\<lparr> it_blocks :=
                 it_blocks ba @ filter (\<lambda>b. cm_id b \<notin> set (map cm_id (it_blocks ba))) (it_blocks ex) \<rparr>)))"

definition mergeNfrTemplates ::
    "NfrTemplate option \<Rightarrow> NfrTemplate option \<Rightarrow> NfrTemplate option" where
  "mergeNfrTemplates base extra =
     (case extra of
        None \<Rightarrow> base
      | Some ex \<Rightarrow>
          (case base of
             None \<Rightarrow> Some ex
           | Some ba \<Rightarrow>
               Some (ba\<lparr> nt_blocks :=
                 nt_blocks ba @ filter (\<lambda>b. nfr_id b \<notin> set (map nfr_id (nt_blocks ba))) (nt_blocks ex) \<rparr>)))"

definition mergeHookTemplates ::
    "HookTemplate list option \<Rightarrow> HookTemplate list option \<Rightarrow> HookTemplate list option" where
  "mergeHookTemplates base extra =
     (case extra of
        None \<Rightarrow> base
      | Some ex \<Rightarrow>
          (case base of
             None \<Rightarrow> Some ex
           | Some ba \<Rightarrow> Some (ba @ filter (\<lambda>h. hk_name h \<notin> set (map hk_name ba)) ex)))"

definition mergeReviewTemplates ::
    "ReviewTemplate option \<Rightarrow> ReviewTemplate option \<Rightarrow> ReviewTemplate option" where
  "mergeReviewTemplates base extra =
     (case extra of
        None \<Rightarrow> base
      | Some ex \<Rightarrow>
          (case base of
             None \<Rightarrow> Some ex
           | Some ba \<Rightarrow>
               Some (ba\<lparr> rt_blocks :=
                 rt_blocks ba @ filter (\<lambda>b. rv_id b \<notin> set (map rv_id (rt_blocks ba))) (rt_blocks ex) \<rparr>)))"

text \<open>
  The object literal \<open>merged\<close> of \<open>loadAllTemplatesWithExtras\<close>: four sections are
  merged additively, the structure section is \<open>extraSet.structure ?? baseSet.structure\<close>.
\<close>

definition mergeTagTemplateSet :: "TagKey \<Rightarrow> TagTemplateSet \<Rightarrow> TagTemplateSet \<Rightarrow> TagTemplateSet" where
  "mergeTagTemplateSet tag baseSet extraSet =
     \<lparr> ts_tag = tag,
       ts_instructions =
         mergeInstructionTemplates (ts_instructions baseSet) (ts_instructions extraSet),
       ts_nfr = mergeNfrTemplates (ts_nfr baseSet) (ts_nfr extraSet),
       ts_structure =
         (case ts_structure extraSet of None \<Rightarrow> ts_structure baseSet | Some s \<Rightarrow> Some s),
       ts_hooks = mergeHookTemplates (ts_hooks baseSet) (ts_hooks extraSet),
       ts_review = mergeReviewTemplates (ts_review baseSet) (ts_review extraSet),
       ts_claudeMd = None \<rparr>"

text \<open>The loop \<open>for (const [tag, extraSet] of extra)\<close>, which updates \<open>base\<close> in place.\<close>

fun mergeExtra :: "TemplateMap \<Rightarrow> TemplateMap \<Rightarrow> TemplateMap" where
  "mergeExtra [] base = base"
| "mergeExtra ((tag, extraSet) # rest) base =
     (case map_of base tag of
        None \<Rightarrow> mergeExtra rest (AList.update tag extraSet base)
      | Some baseSet \<Rightarrow>
          mergeExtra rest (AList.update tag (mergeTagTemplateSet tag baseSet extraSet) base))"

text \<open>
  The loop over \<open>extraDirs\<close>: each directory is resolved; a resolved path at which
  nothing exists is skipped with a warning, any other is loaded.
\<close>

fun extrasLoop :: "FileSystem \<Rightarrow> string list \<Rightarrow> TemplateMap \<Rightarrow> error + TemplateMap" where
  "extrasLoop fs [] base = Inr base"
| "extrasLoop fs (dir # dirs) base =
     (let resolvedDir = fs_resolve fs dir
      in if \<not> existsSync fs resolvedDir then extrasLoop fs dirs base
         else andThen (loadAllTemplates fs resolvedDir)
                (\<lambda>extra. extrasLoop fs dirs (mergeExtra extra base)))"

definition loadAllTemplatesWithExtras ::
    "FileSystem \<Rightarrow> string \<Rightarrow> string list option \<Rightarrow> error + TemplateMap" where
  "loadAllTemplatesWithExtras fs builtInDir extraDirs =
     andThen (loadAllTemplates fs builtInDir)
       (\<lambda>base. case extraDirs of
                 None \<Rightarrow> Inr base
               | Some dirs \<Rightarrow> if length dirs = 0 then Inr base else extrasLoop fs dirs base)"

text \<open>
  The files of a tag directory that \<open>loadTagTemplateSet\<close> reads and cannot parse:
  \<open>claude-md.yaml\<close> is read only when \<open>instructions.yaml\<close> does not exist.
\<close>

definition unparsable :: "'a YamlSource option \<Rightarrow> bool" where
  "unparsable file =
     (case file of None \<Rightarrow> False | Some (Document parsed) \<Rightarrow> False | Some other \<Rightarrow> True)"







section \<open>The refresh tool (tools/refresh-project.ts)\<close>

text \<open>
  A detection of the analyzers. The confidence is a JavaScript number; its comparisons
  with the thresholds are those of the reals (no analyzer produces NaN).
\<close>

record Detection =
  det_tag :: Tag
  det_confidence :: real
  det_evidence :: "string list"

record AuditCheck =
  ac_check :: string
  ac_message :: string

record Completeness =
  cr_passing :: "AuditCheck list"
  cr_failing :: "AuditCheck list"

text \<open>The arguments of \<open>refreshProjectSchema\<close> that the analysis reads.\<close>

record RefreshArgs =
  project_dir :: string
  apply_changes :: bool
  arg_tier :: "ContentTier option"
  add_tags :: "Tag list option"
  remove_tags :: "Tag list option"

record TierChange =
  tc_from :: ContentTier
  tc_to :: ContentTier

record BlockCountDelta =
  bcd_before :: nat
  bcd_after :: nat

record DriftReport =
  dr_currentTags :: "Tag list"
  dr_newTagSuggestions :: "Detection list"
  dr_droppedTagCandidates :: "Tag list"
  dr_completenessGaps :: "string list"
  dr_completenessFixed :: "string list"
  dr_tierChange :: "TierChange option"
  dr_blockCountDelta :: BlockCountDelta

text \<open>
  What the tool reads from outside: the file system of the template directories, the
  built-in templates directory, the persisted configuration of a project directory
  (\<open>loadUserOverrides\<close>), and the analyzers \<open>analyzeProject\<close> and \<open>checkCompleteness\<close>.
\<close>

record World =
  w_fs :: FileSystem
  w_builtInDir :: string
  w_loadUserOverrides :: "string \<Rightarrow> ForgeCraftConfig option"
  w_analyzeProject :: "string \<Rightarrow> Detection list"
  w_checkCompleteness :: "string \<Rightarrow> Tag list \<Rightarrow> Completeness"

definition SUGGEST_THRESHOLD :: real where
  "SUGGEST_THRESHOLD = 0.5"

text \<open>
  A JavaScript \<open>Set\<close> that is later turned into an array is the list of its members in
  insertion order: \<open>add\<close> appends a member that is not there, \<open>delete\<close> removes it.
\<close>

definition setAdd :: "'a \<Rightarrow> 'a list \<Rightarrow> 'a list" where
  "setAdd x s = (if x \<in> set s then s else s @ [x])"

definition setDelete :: "'a \<Rightarrow> 'a list \<Rightarrow> 'a list" where
  "setDelete x s = filter (\<lambda>y. y \<noteq> x) s"

definition computeUpdatedTags ::
    "Tag list \<Rightarrow> Detection list \<Rightarrow> Tag list option \<Rightarrow> Tag list option \<Rightarrow> Tag list" where
  "computeUpdatedTags currentTags suggestions addTags removeTags =
     (let tagSet0 = fold setAdd currentTags [];
          tagSet1 = fold (\<lambda>s tagSet. if 0.6 \<le> det_confidence s then setAdd (det_tag s) tagSet
                                     else tagSet) suggestions tagSet0;
          tagSet2 = (case addTags of None \<Rightarrow> tagSet1 | Some ts \<Rightarrow> fold setAdd ts tagSet1);
          tagSet3 = (case removeTags of
                       None \<Rightarrow> tagSet2
                     | Some ts \<Rightarrow> fold (\<lambda>t tagSet. if t \<noteq> UNIVERSAL then setDelete t tagSet
                                                  else tagSet) ts tagSet2)
      in setAdd UNIVERSAL tagSet3)"

text \<open>
  The loop of \<open>analyzeDrift\<close> over the detections; the state is \<open>newTagSuggestions\<close>
  and \<open>detectedTagSet\<close>.
\<close>

fun detectLoop :: "Tag list \<Rightarrow> Detection list \<Rightarrow> Detection list \<times> Tag set \<Rightarrow>
    Detection list \<times> Tag set" where
  "detectLoop currentTags [] st = st"
| "detectLoop currentTags (d # ds) (suggestions, detected) =
     detectLoop currentTags ds
       (if SUGGEST_THRESHOLD \<le> det_confidence d \<and> det_tag d \<notin> set currentTags
        then suggestions @ [\<lparr> det_tag = det_tag d, det_confidence = det_confidence d,
                               det_evidence = det_evidence d \<rparr>]
        else suggestions,
        insert (det_tag d) detected)"

definition analyzeDrift :: "World \<Rightarrow> string \<Rightarrow> ForgeCraftConfig \<Rightarrow> RefreshArgs \<Rightarrow>
    error + DriftReport" where
  "analyzeDrift w projectDir cf args =
     (let currentTags = (case cfg_tags cf of None \<Rightarrow> [UNIVERSAL] | Some ts \<Rightarrow> ts);
          currentTier = (case cfg_tier cf of None \<Rightarrow> Recommended | Some t \<Rightarrow> t);
          requestedTier = (case arg_tier args of None \<Rightarrow> currentTier | Some t \<Rightarrow> t);
          detections = w_analyzeProject w projectDir;
          found = detectLoop currentTags detections ([], {});
          suggestions = fst found;
          detectedTagSet = snd found;
          dropped = filter (\<lambda>t. t \<noteq> UNIVERSAL \<and> t \<notin> detectedTagSet) currentTags;
          completeness = w_checkCompleteness w projectDir currentTags;
          change = (if requestedTier \<noteq> currentTier
                    then Some \<lparr> tc_from = currentTier, tc_to = requestedTier \<rparr> else None)
      in andThen (loadAllTemplatesWithExtras (w_fs w) (w_builtInDir w) (cfg_templateDirs cf))
           (\<lambda>allTemplates.
              let beforeComposed =
                    composeTemplates_rev currentTags allTemplates (Some \<lparr> config = Some cf \<rparr>);
                  proposedTags =
                    computeUpdatedTags currentTags suggestions (add_tags args) (remove_tags args);
                  afterConfig = cf\<lparr> cfg_tags := Some proposedTags, cfg_tier := Some requestedTier \<rparr>;
                  afterComposed =
                    composeTemplates_rev proposedTags allTemplates (Some \<lparr> config = Some afterConfig \<rparr>)
              in Inr \<lparr> dr_currentTags = currentTags,
                       dr_newTagSuggestions = suggestions,
                       dr_droppedTagCandidates = dropped,
                       dr_completenessGaps = map ac_check (cr_failing completeness),
                       dr_completenessFixed = map ac_check (cr_passing completeness),
                       dr_tierChange = change,
                       dr_blockCountDelta =
                         \<lparr> bcd_before = length (claudeMdBlocks beforeComposed),
                           bcd_after = length (claudeMdBlocks afterComposed) \<rparr> \<rparr>))"

text \<open>
  Steps 1 to 4 of \<open>refreshProjectHandler\<close>: the persisted configuration, the drift
  report, the updated configuration and its composition. Writing the files and
  formatting the answer (step 5) are left out.
\<close>

datatype RefreshOutcome =
    NoConfiguration
  | Refreshed DriftReport ForgeCraftConfig ComposedTemplates

definition refreshProjectHandler :: "World \<Rightarrow> RefreshArgs \<Rightarrow> error + RefreshOutcome" where
  "refreshProjectHandler w args =
     (case w_loadUserOverrides w (project_dir args) of
        None \<Rightarrow> Inr NoConfiguration
      | Some existingConfig \<Rightarrow>
          andThen (analyzeDrift w (project_dir args) existingConfig args)
            (\<lambda>drift.
               let updatedTags =
                     computeUpdatedTags (dr_currentTags drift) (dr_newTagSuggestions drift)
                       (add_tags args) (remove_tags args);
                   updatedTier =
                     (case arg_tier args of
                        Some t \<Rightarrow> t
                      | None \<Rightarrow> (case cfg_tier existingConfig of Some t \<Rightarrow> t | None \<Rightarrow> Recommended));
                   updatedConfig =
                     existingConfig\<lparr> cfg_tags := Some updatedTags, cfg_tier := Some updatedTier \<rparr>
               in andThen (loadAllTemplatesWithExtras (w_fs w) (w_builtInDir w)
                             (cfg_templateDirs updatedConfig))
                    (\<lambda>allTemplates.
                       Inr (Refreshed drift updatedConfig
                              (composeTemplates_rev updatedTags allTemplates
                                 (Some \<lparr> config = Some updatedConfig \<rparr>))))))"

section \<open>Example inputs\<close>

text \<open>The builders of the composer's test suite, and the stores the examples use.\<close>

definition makeTemplateSet :: "Tag \<Rightarrow> TagTemplateSet" where
  "makeTemplateSet tag =
     \<lparr> ts_tag = Known tag, ts_instructions = None, ts_nfr = None, ts_structure = None,
       ts_hooks = None, ts_review = None, ts_claudeMd = None \<rparr>"

definition makeBlock :: "string \<Rightarrow> string \<Rightarrow> ContentTier option \<Rightarrow> ClaudeMdBlock" where
  "makeBlock i title t =
     \<lparr> cm_id = i, cm_title = title, cm_content = ''Content for '' @ i, cm_tier = t \<rparr>"

definition makeEntry :: "string \<Rightarrow> StructureEntry" where
  "makeEntry p =
     \<lparr> se_path = p, se_type = ''directory'', se_description = None, se_template = None \<rparr>"

definition makeHook :: "string \<Rightarrow> HookTemplate" where
  "makeHook n =
     \<lparr> hk_name = n, hk_trigger = ''pre-commit'', hk_description = ''Hook '' @ n,
       hk_filename = n @ ''.sh'', hk_script = ''echo '' @ n \<rparr>"

definition claudeMdTemplate :: "Tag \<Rightarrow> ClaudeMdBlock list \<Rightarrow> InstructionTemplate" where
  "claudeMdTemplate tag bs = \<lparr> it_tag = tag, it_section = ''claude-md'', it_blocks = bs \<rparr>"

definition structureTemplate :: "Tag \<Rightarrow> StructureEntry list \<Rightarrow> StructureTemplate" where
  "structureTemplate tag es =
     \<lparr> st_tag = tag, st_section = ''structure'', st_language = None, st_entries = es \<rparr>"

text \<open>One block in UNIVERSAL and one in API, as in the test of the prepended tag.\<close>

definition twoTagStore :: TemplateMap where
  "twoTagStore =
     [(Known UNIVERSAL, (makeTemplateSet UNIVERSAL)
         \<lparr> ts_claudeMd := Some (claudeMdTemplate UNIVERSAL
              [makeBlock ''universal-block'' ''universal-block'' None]) \<rparr>),
      (Known API, (makeTemplateSet API)
         \<lparr> ts_claudeMd := Some (claudeMdTemplate API
              [makeBlock ''api-block'' ''api-block'' None]) \<rparr>)]"

text \<open>A store with one block, one hook and one structure entry in UNIVERSAL.\<close>

definition gatedUniversal :: TagTemplateSet where
  "gatedUniversal =
     (makeTemplateSet UNIVERSAL)
       \<lparr> ts_claudeMd := Some (claudeMdTemplate UNIVERSAL
            [makeBlock ''keep-me'' ''Keep'' (Some Core), makeBlock ''lint'' ''Drop'' (Some Core)]),
         ts_structure := Some (structureTemplate UNIVERSAL [makeEntry ''src/'']),
         ts_hooks := Some [makeHook ''lint''] \<rparr>"

definition gatedStore :: TemplateMap where
  "gatedStore = [(Known UNIVERSAL, gatedUniversal)]"

definition gatedConfig :: ForgeCraftConfig where
  "gatedConfig =
     \<lparr> cfg_tags = Some [UNIVERSAL], cfg_tier = Some Optional, cfg_include = Some [''keep-me''],
       cfg_exclude = Some [''lint''], cfg_templateDirs = None \<rparr>"

definition plainConfig :: ForgeCraftConfig where
  "plainConfig =
     \<lparr> cfg_tags = Some [UNIVERSAL], cfg_tier = None, cfg_include = None,
       cfg_exclude = None, cfg_templateDirs = None \<rparr>"

text \<open>
  The id \<open>shared\<close> is carried by an optional block of UNIVERSAL and by a core block of
  API, with different titles.
\<close>

definition tieredStore :: TemplateMap where
  "tieredStore =
     [(Known UNIVERSAL, (makeTemplateSet UNIVERSAL)
         \<lparr> ts_claudeMd := Some (claudeMdTemplate UNIVERSAL
              [makeBlock ''shared'' ''from universal'' (Some Optional)]) \<rparr>),
      (Known API, (makeTemplateSet API)
         \<lparr> ts_claudeMd := Some (claudeMdTemplate API
              [makeBlock ''shared'' ''from api'' (Some Core)]) \<rparr>)]"

section \<open>Notions the theorems are stated with\<close>





section \<open>Example template directories and projects\<close>

text \<open>
  Template directories: the built-in one, a community one that repeats the block id
  \<open>code-standards\<close> and the path \<open>src/\<close> of UNIVERSAL, and one whose \<open>api/nfr.yaml\<close>
  is not well-formed YAML. The process runs in \<open>/srv/app\<close>.
\<close>

definition emptyTagDir :: TagDir where
  "emptyTagDir =
     \<lparr> instructions_yaml = None, claude_md_yaml = None, nfr_yaml = None,
       structure_yaml = None, hooks_yaml = None, review_yaml = None \<rparr>"

definition instructionsTemplate :: "Tag \<Rightarrow> ClaudeMdBlock list \<Rightarrow> InstructionTemplate" where
  "instructionsTemplate tag bs =
     \<lparr> it_tag = tag, it_section = ''instructions'', it_blocks = bs \<rparr>"

definition describedEntry :: "string \<Rightarrow> string \<Rightarrow> StructureEntry" where
  "describedEntry p text =
     \<lparr> se_path = p, se_type = ''directory'', se_description = Some text, se_template = None \<rparr>"

definition universalDir :: TagDir where
  "universalDir =
     emptyTagDir
       \<lparr> instructions_yaml := Some (Document (instructionsTemplate UNIVERSAL
            [makeBlock ''code-standards'' ''Code Standards'' (Some Core)])),
         structure_yaml := Some (Document (structureTemplate UNIVERSAL
            [describedEntry ''src/'' ''base layout'', describedEntry ''tests/'' ''base tests''])),
         hooks_yaml := Some (Document
            \<lparr> hy_tag = ''UNIVERSAL'', hy_section = ''hooks'', hy_hooks = [makeHook ''lint''] \<rparr>) \<rparr>"

definition apiDir :: TagDir where
  "apiDir =
     emptyTagDir
       \<lparr> instructions_yaml := Some (Document (instructionsTemplate API
            [makeBlock ''api-block'' ''API'' None])),
         hooks_yaml := Some (Document
            \<lparr> hy_tag = ''API'', hy_section = ''hooks'',
              hy_hooks = [makeHook ''api-check'', makeHook ''api-audit''] \<rparr>) \<rparr>"

definition brokenApiDir :: TagDir where
  "brokenApiDir = apiDir \<lparr> nfr_yaml := Some (Malformed ''bad indentation'') \<rparr>"

definition communityUniversalDir :: TagDir where
  "communityUniversalDir =
     emptyTagDir
       \<lparr> instructions_yaml := Some (Document (instructionsTemplate UNIVERSAL
            [makeBlock ''code-standards'' ''Community Standards'' (Some Core),
             makeBlock ''community-extra'' ''Extra'' (Some Recommended)])),
         structure_yaml := Some (Document (structureTemplate UNIVERSAL
            [describedEntry ''src/'' ''community layout''])) \<rparr>"

definition demoFs :: FileSystem where
  "demoFs =
     \<lparr> fs_join = (\<lambda>dir name. dir @ ''/'' @ name),
       fs_resolve = (\<lambda>p. ''/srv/app/'' @ p),
       fs_node = (\<lambda>p.
         if p = ''/srv/app/templates''
           then Some (Directory [(''universal'', universalDir), (''api'', apiDir)])
         else if p = ''/srv/app/community''
           then Some (Directory [(''universal'', communityUniversalDir)])
         else if p = ''/srv/app/broken''
           then Some (Directory [(''universal'', universalDir), (''api'', brokenApiDir)])
         else if p = ''/srv/app/notes.txt'' then Some PlainFile
         else None) \<rparr>"

definition loadedUniversal :: TagTemplateSet where
  "loadedUniversal =
     (makeTemplateSet UNIVERSAL)
       \<lparr> ts_instructions := Some (instructionsTemplate UNIVERSAL
            [makeBlock ''code-standards'' ''Code Standards'' (Some Core)]),
         ts_structure := Some (structureTemplate UNIVERSAL
            [describedEntry ''src/'' ''base layout'', describedEntry ''tests/'' ''base tests'']),
         ts_hooks := Some [makeHook ''lint''] \<rparr>"

definition loadedCommunity :: TagTemplateSet where
  "loadedCommunity =
     (makeTemplateSet UNIVERSAL)
       \<lparr> ts_instructions := Some (instructionsTemplate UNIVERSAL
            [makeBlock ''code-standards'' ''Community Standards'' (Some Core),
             makeBlock ''community-extra'' ''Extra'' (Some Recommended)]),
         ts_structure := Some (structureTemplate UNIVERSAL
            [describedEntry ''src/'' ''community layout'']) \<rparr>"

text \<open>
  A store without its requirement, structure, hook and review sections; the tag list
  of the updated configuration and the drift report of a refresh run that returned
  them; the number of fragments of each kind of a composition.
\<close>

definition instructionsOnly :: "TemplateMap \<Rightarrow> TemplateMap" where
  "instructionsOnly allTemplates =
     map (\<lambda>(tag, templateSet).
            (tag, templateSet\<lparr> ts_nfr := None, ts_structure := None, ts_hooks := None,
                                ts_review := None \<rparr>)) allTemplates"

definition resolvedTags :: "error + RefreshOutcome \<Rightarrow> Tag list option" where
  "resolvedTags r =
     (case r of
        Inr (Refreshed drift updatedConfig composed) \<Rightarrow> cfg_tags updatedConfig
      | other \<Rightarrow> None)"

definition reportOf :: "error + RefreshOutcome \<Rightarrow> DriftReport option" where
  "reportOf r =
     (case r of
        Inr (Refreshed drift updatedConfig composed) \<Rightarrow> Some drift
      | other \<Rightarrow> None)"

definition kindCounts :: "ComposedTemplates \<Rightarrow> nat \<times> nat \<times> nat \<times> nat \<times> nat" where
  "kindCounts composed =
     (length (claudeMdBlocks composed), length (structureEntries composed),
      length (nfrBlocks composed), length (hooks composed), length (reviewBlocks composed))"

definition composedCounts :: "error + TemplateMap \<Rightarrow> Tag list \<Rightarrow> ComposeOptions option \<Rightarrow>
    (nat \<times> nat \<times> nat \<times> nat \<times> nat) option" where
  "composedCounts r tags options =
     (case r of
        Inl e \<Rightarrow> None
      | Inr allTemplates \<Rightarrow> Some (kindCounts (composeTemplates_rev tags allTemplates options)))"

text \<open>
  A project configured with the universal tag only, in which the analyzers detect API
  with confidence 0.65 and MOBILE with confidence 0.55, and the drift report of its
  refresh without explicit tags.
\<close>

definition apiDetection :: Detection where
  "apiDetection = \<lparr> det_tag = API, det_confidence = 0.65, det_evidence = [''express''] \<rparr>"

definition mobileDetection :: Detection where
  "mobileDetection =
     \<lparr> det_tag = MOBILE, det_confidence = 0.55, det_evidence = [''react-native''] \<rparr>"

definition demoWorld :: World where
  "demoWorld =
     \<lparr> w_fs = demoFs, w_builtInDir = ''/srv/app/templates'',
       w_loadUserOverrides = (\<lambda>dir. if dir = ''project'' then Some plainConfig else None),
       w_analyzeProject = (\<lambda>dir. [apiDetection, mobileDetection]),
       w_checkCompleteness = (\<lambda>dir tags. \<lparr> cr_passing = [], cr_failing = [] \<rparr>) \<rparr>"

definition refreshArgs :: "Tag list option \<Rightarrow> RefreshArgs" where
  "refreshArgs removed =
     \<lparr> project_dir = ''project'', apply_changes = False, arg_tier = None, add_tags = None,
       remove_tags = removed \<rparr>"

definition demoReport :: DriftReport where
  "demoReport =
     \<lparr> dr_currentTags = [UNIVERSAL],
       dr_newTagSuggestions = [apiDetection, mobileDetection],
       dr_droppedTagCandidates = [],
       dr_completenessGaps = [],
       dr_completenessFixed = [],
       dr_tierChange = None,
       dr_blockCountDelta = \<lparr> bcd_before = 1, bcd_after = 2 \<rparr> \<rparr>"

section \<open>The inner loops of the composer\<close>

lemma admitLoop_append:
  "admitLoop key ok (xs @ ys) st = admitLoop key ok ys (admitLoop key ok xs st)"
  by (induction key ok xs st rule: admitLoop.induct) simp_all

lemma admitLoop_seen:
  "fst st = key ` set (snd st) \<Longrightarrow>
   fst (admitLoop key ok bs st) = key ` set (snd (admitLoop key ok bs st))"
  by (induction key ok bs st rule: admitLoop.induct) simp_all

lemma admitLoop_distinct:
  "fst st = key ` set (snd st) \<Longrightarrow> distinct (map key (snd st)) \<Longrightarrow>
   distinct (map key (snd (admitLoop key ok bs st)))"
  by (induction key ok bs st rule: admitLoop.induct) simp_all

lemma admitLoop_keys:
  "fst st = key ` set (snd st) \<Longrightarrow>
   key ` set (snd (admitLoop key ok bs st)) = fst st \<union> key ` {b \<in> set bs. ok b}"
  by (induction key ok bs st rule: admitLoop.induct) auto

lemma admitLoop_subset:
  "set (snd (admitLoop key ok bs st)) \<subseteq> set (snd st) \<union> {b \<in> set bs. ok b}"
  by (induction key ok bs st rule: admitLoop.induct) auto

lemma admitLoop_distinct_init:
  "distinct (map key (snd (admitLoop key ok bs ({}, []))))"
  by (rule admitLoop_distinct) simp_all

lemma admitLoop_keys_init:
  "key ` set (snd (admitLoop key ok bs ({}, []))) = key ` {b \<in> set bs. ok b}"
  using admitLoop_keys [of "({}, [])" key ok bs] by simp

lemma admitLoop_subset_init:
  "set (snd (admitLoop key ok bs ({}, []))) \<subseteq> {b \<in> set bs. ok b}"
  using admitLoop_subset [of key ok bs "({}, [])"] by simp

text \<open>
  Each kind's accumulator after the loop over the tags is its inner loop run over the
  fragments visited, so the five kinds do not interfere.
\<close>

lemma composeLoop_claudeMd:
  "acc_claudeMd (composeLoop src A inc exc allTemplates tags s) =
     admitLoop cm_id (\<lambda>b. gate A inc exc (cm_tier b) (cm_id b))
       (visited (instructionBlocksOf src) allTemplates tags) (acc_claudeMd s)"
  by (induction tags arbitrary: s)
     (simp_all add: composeTag_def instructionBlocksOf_def gate_def admitLoop_append split: option.splits)

lemma composeLoop_structure:
  "acc_structure (composeLoop src A inc exc allTemplates tags s) =
     admitLoop se_path (\<lambda>e. True) (visited structureOf allTemplates tags) (acc_structure s)"
  by (induction tags arbitrary: s)
     (simp_all add: composeTag_def structureOf_def admitLoop_append split: option.splits)

lemma composeLoop_nfr:
  "acc_nfr (composeLoop src A inc exc allTemplates tags s) =
     admitLoop nfr_id (\<lambda>b. gate A inc exc (nfr_tier b) (nfr_id b))
       (visited nfrOf allTemplates tags) (acc_nfr s)"
  by (induction tags arbitrary: s)
     (simp_all add: composeTag_def nfrOf_def gate_def admitLoop_append split: option.splits)

lemma composeLoop_hooks:
  "acc_hooks (composeLoop src A inc exc allTemplates tags s) =
     admitLoop hk_name (\<lambda>h. True) (visited hooksOf allTemplates tags) (acc_hooks s)"
  by (induction tags arbitrary: s)
     (simp_all add: composeTag_def hooksOf_def admitLoop_append split: option.splits)

lemma composeLoop_review:
  "acc_review (composeLoop src A inc exc allTemplates tags s) =
     admitLoop rv_id (\<lambda>b. gate A inc exc (rv_tier b) (rv_id b))
       (visited reviewOf allTemplates tags) (acc_review s)"
  by (induction tags arbitrary: s)
     (simp_all add: composeTag_def reviewOf_def gate_def admitLoop_append split: option.splits)

lemma claudeMdBlocks_compose:
  "claudeMdBlocks (composeWith src tags allTemplates options) =
     snd (admitLoop cm_id
            (\<lambda>b. gate (allowedOf options) (includeListOf (optConfig options))
                   (excludeListOf (optConfig options)) (cm_tier b) (cm_id b))
            (visited (instructionBlocksOf src) allTemplates (normalizeTagOrder tags)) ({}, []))"
  by (simp add: composeWith_def Let_def composeLoop_claudeMd initialState_def allowedOf_def)

lemma structureEntries_compose:
  "structureEntries (composeWith src tags allTemplates options) =
     snd (admitLoop se_path (\<lambda>e. True)
            (visited structureOf allTemplates (normalizeTagOrder tags)) ({}, []))"
  by (simp add: composeWith_def Let_def composeLoop_structure initialState_def)

lemma nfrBlocks_compose:
  "nfrBlocks (composeWith src tags allTemplates options) =
     snd (admitLoop nfr_id
            (\<lambda>b. gate (allowedOf options) (includeListOf (optConfig options))
                   (excludeListOf (optConfig options)) (nfr_tier b) (nfr_id b))
            (visited nfrOf allTemplates (normalizeTagOrder tags)) ({}, []))"
  by (simp add: composeWith_def Let_def composeLoop_nfr initialState_def allowedOf_def)

lemma hooks_compose:
  "hooks (composeWith src tags allTemplates options) =
     snd (admitLoop hk_name (\<lambda>h. True)
            (visited hooksOf allTemplates (normalizeTagOrder tags)) ({}, []))"
  by (simp add: composeWith_def Let_def composeLoop_hooks initialState_def)

lemma reviewBlocks_compose:
  "reviewBlocks (composeWith src tags allTemplates options) =
     snd (admitLoop rv_id
            (\<lambda>b. gate (allowedOf options) (includeListOf (optConfig options))
                   (excludeListOf (optConfig options)) (rv_tier b) (rv_id b))
            (visited reviewOf allTemplates (normalizeTagOrder tags)) ({}, []))"
  by (simp add: composeWith_def Let_def composeLoop_review initialState_def allowedOf_def)

section \<open>No duplicate identities\<close>

text \<open>
  Claim C9. For every composition (any tag list, store, tier and include/exclude
  lists), no two fragments of one kind of the output share an identity: the ids of the
  instruction, requirement and review blocks, the paths of the structure entries and
  the names of the hooks are pairwise different.
\<close>

theorem composeTemplates_no_duplicate_ids:
  "distinct (map cm_id (claudeMdBlocks (composeTemplates tags allTemplates options)))
   \<and> distinct (map se_path (structureEntries (composeTemplates tags allTemplates options)))
   \<and> distinct (map nfr_id (nfrBlocks (composeTemplates tags allTemplates options)))
   \<and> distinct (map hk_name (hooks (composeTemplates tags allTemplates options)))
   \<and> distinct (map rv_id (reviewBlocks (composeTemplates tags allTemplates options)))"
  unfolding composeTemplates_def
  by (simp add: claudeMdBlocks_compose structureEntries_compose nfrBlocks_compose
      hooks_compose reviewBlocks_compose admitLoop_distinct_init)

lemmas example_defs = makeTemplateSet_def makeBlock_def makeEntry_def makeHook_def
  claudeMdTemplate_def structureTemplate_def gatedUniversal_def

lemmas compose_defs = composeTemplates_def composeTemplates_rev_def composeWith_def
  instructionsOrClaudeMd_def Let_def composeTag_def initialState_def
  optConfig_def tierLevelOf_def includeListOf_def excludeListOf_def DEFAULT_TIER_def
  normalizeTagOrder_def isTierAllowed_def isBlockAllowed_def

section \<open>The position of the universal tag\<close>

text \<open>
  Claim C1. For every non-empty requested tag list the normalized working tag list has
  the universal tag in first position, so that the output lists the universal tag's
  fragments first, also when the caller placed the tag elsewhere in the list. The code
  pushes UNIVERSAL up front only when the list does not include it: for the request
  API, UNIVERSAL the order is kept and the block of API comes first.
\<close>

theorem normalizeTagOrder_keeps_late_universal:
  "normalizeTagOrder [API, UNIVERSAL] = [API, UNIVERSAL]
   \<and> map cm_id (claudeMdBlocks (composeTemplates [API, UNIVERSAL] twoTagStore None))
       = [''api-block'', ''universal-block'']"
  by (simp add: compose_defs twoTagStore_def example_defs)

section \<open>Hooks and structure entries are not gated\<close>

lemma gated_output:
  "list_all (\<lambda>b. isBlockAllowed (key b) inc exc)
      (snd (admitLoop key (\<lambda>b. gate A inc exc (tr b) (key b)) bs ({}, [])))"
  using admitLoop_subset_init [of key "\<lambda>b. gate A inc exc (tr b) (key b)" bs]
  by (auto simp: list_all_iff gate_def)

lemma hooks_names:
  "hk_name ` set (hooks (composeWith src tags allTemplates options))
     = hk_name ` set (visited hooksOf allTemplates (normalizeTagOrder tags))"
  unfolding hooks_compose admitLoop_keys_init by simp

lemma structure_paths:
  "se_path ` set (structureEntries (composeWith src tags allTemplates options))
     = se_path ` set (visited structureOf allTemplates (normalizeTagOrder tags))"
  unfolding structureEntries_compose admitLoop_keys_init by simp

lemma claudeMd_gated:
  "list_all (\<lambda>b. isBlockAllowed (cm_id b) (includeListOf (optConfig options))
                     (excludeListOf (optConfig options)))
       (claudeMdBlocks (composeWith src tags allTemplates options))"
  unfolding claudeMdBlocks_compose by (rule gated_output)

lemma nfr_gated:
  "list_all (\<lambda>b. isBlockAllowed (nfr_id b) (includeListOf (optConfig options))
                     (excludeListOf (optConfig options)))
       (nfrBlocks (composeWith src tags allTemplates options))"
  unfolding nfrBlocks_compose by (rule gated_output)

lemma review_gated:
  "list_all (\<lambda>b. isBlockAllowed (rv_id b) (includeListOf (optConfig options))
                     (excludeListOf (optConfig options)))
       (reviewBlocks (composeWith src tags allTemplates options))"
  unfolding reviewBlocks_compose by (rule gated_output)

lemma hooks_any_options:
  "hooks (composeWith src tags allTemplates options)
     = hooks (composeWith src tags allTemplates options')"
  by (simp only: hooks_compose)

lemma structureEntries_any_options:
  "structureEntries (composeWith src tags allTemplates options)
     = structureEntries (composeWith src tags allTemplates options')"
  by (simp only: structureEntries_compose)

text \<open>
  Claim C3, as stated: a hook whose name is in the exclude list, or a structure entry
  whose identifier is absent from a non-empty include list, does not appear in the
  composed output. It fails: with the exclude list \<open>lint\<close> and the include list
  \<open>keep-me\<close>, the hook \<open>lint\<close> and the entry \<open>src/\<close> are in the output, while the
  block \<open>lint\<close> is dropped.
\<close>

theorem hooks_structure_gate_counterexample:
  "map hk_name (hooks (composeTemplates [UNIVERSAL] gatedStore
       (Some \<lparr> config = Some gatedConfig \<rparr>))) = [''lint'']
   \<and> \<not> isBlockAllowed ''lint'' (cfg_include gatedConfig) (cfg_exclude gatedConfig)
   \<and> map se_path (structureEntries (composeTemplates [UNIVERSAL] gatedStore
       (Some \<lparr> config = Some gatedConfig \<rparr>))) = [''src/'']
   \<and> \<not> isBlockAllowed ''src/'' (cfg_include gatedConfig) (cfg_exclude gatedConfig)
   \<and> map cm_id (claudeMdBlocks (composeTemplates [UNIVERSAL] gatedStore
       (Some \<lparr> config = Some gatedConfig \<rparr>))) = [''keep-me'']"
  by (simp add: compose_defs gatedStore_def gatedConfig_def example_defs)

text \<open>
  Claim C3, amended. Hooks and structure entries skip the tier check and the
  include/exclude gate alike; they are deduplicated only. The hooks and the structure
  entries of the output are the same under any two options, every name of a visited
  hook and every path of a visited entry is in the output, and the include/exclude gate
  holds of every instruction, requirement and review block of the output.
\<close>

theorem hooks_structure_skip_gate:
  "hooks (composeTemplates tags allTemplates options)
     = hooks (composeTemplates tags allTemplates options')
   \<and> structureEntries (composeTemplates tags allTemplates options)
     = structureEntries (composeTemplates tags allTemplates options')
   \<and> hk_name ` set (hooks (composeTemplates tags allTemplates options))
     = hk_name ` set (visited hooksOf allTemplates (normalizeTagOrder tags))
   \<and> se_path ` set (structureEntries (composeTemplates tags allTemplates options))
     = se_path ` set (visited structureOf allTemplates (normalizeTagOrder tags))
   \<and> list_all (\<lambda>b. isBlockAllowed (cm_id b) (includeListOf (optConfig options))
                     (excludeListOf (optConfig options)))
       (claudeMdBlocks (composeTemplates tags allTemplates options))
   \<and> list_all (\<lambda>b. isBlockAllowed (nfr_id b) (includeListOf (optConfig options))
                     (excludeListOf (optConfig options)))
       (nfrBlocks (composeTemplates tags allTemplates options))
   \<and> list_all (\<lambda>b. isBlockAllowed (rv_id b) (includeListOf (optConfig options))
                     (excludeListOf (optConfig options)))
       (reviewBlocks (composeTemplates tags allTemplates options))"
  unfolding composeTemplates_def
  by (intro conjI hooks_any_options structureEntries_any_options hooks_names structure_paths
      claudeMd_gated nfr_gated review_gated)

theorem hooks_structure_skip_gate_witness:
  "hooks (composeTemplates [UNIVERSAL] gatedStore (Some \<lparr> config = Some gatedConfig \<rparr>))
     = hooks (composeTemplates [UNIVERSAL] gatedStore None)
   \<and> structureEntries (composeTemplates [UNIVERSAL] gatedStore (Some \<lparr> config = Some gatedConfig \<rparr>))
     = structureEntries (composeTemplates [UNIVERSAL] gatedStore None)
   \<and> hk_name ` set (hooks (composeTemplates [UNIVERSAL] gatedStore (Some \<lparr> config = Some gatedConfig \<rparr>)))
     = hk_name ` set (visited hooksOf gatedStore (normalizeTagOrder [UNIVERSAL]))
   \<and> se_path ` set (structureEntries (composeTemplates [UNIVERSAL] gatedStore (Some \<lparr> config = Some gatedConfig \<rparr>)))
     = se_path ` set (visited structureOf gatedStore (normalizeTagOrder [UNIVERSAL]))
   \<and> list_all (\<lambda>b. isBlockAllowed (cm_id b) (includeListOf (optConfig (Some \<lparr> config = Some gatedConfig \<rparr>)))
                     (excludeListOf (optConfig (Some \<lparr> config = Some gatedConfig \<rparr>))))
       (claudeMdBlocks (composeTemplates [UNIVERSAL] gatedStore (Some \<lparr> config = Some gatedConfig \<rparr>)))
   \<and> list_all (\<lambda>b. isBlockAllowed (nfr_id b) (includeListOf (optConfig (Some \<lparr> config = Some gatedConfig \<rparr>)))
                     (excludeListOf (optConfig (Some \<lparr> config = Some gatedConfig \<rparr>))))
       (nfrBlocks (composeTemplates [UNIVERSAL] gatedStore (Some \<lparr> config = Some gatedConfig \<rparr>)))
   \<and> list_all (\<lambda>b. isBlockAllowed (rv_id b) (includeListOf (optConfig (Some \<lparr> config = Some gatedConfig \<rparr>)))
                     (excludeListOf (optConfig (Some \<lparr> config = Some gatedConfig \<rparr>))))
       (reviewBlocks (composeTemplates [UNIVERSAL] gatedStore (Some \<lparr> config = Some gatedConfig \<rparr>)))"
  by (rule hooks_structure_skip_gate)

section \<open>Tier monotonicity\<close>

lemma allowedOf_atTier: "allowedOf (atTier c t) = set (TIER_HIERARCHY t)"
  by (simp add: allowedOf_def atTier_def optConfig_def tierLevelOf_def)

lemma includeListOf_atTier: "includeListOf (optConfig (atTier c t)) = cfg_include c"
  by (simp add: atTier_def optConfig_def includeListOf_def)

lemma excludeListOf_atTier: "excludeListOf (optConfig (atTier c t)) = cfg_exclude c"
  by (simp add: atTier_def optConfig_def excludeListOf_def)

lemma gate_mono:
  "A \<subseteq> A' \<Longrightarrow> gate A inc exc t i \<Longrightarrow> gate A' inc exc t i"
  by (auto simp: gate_def isTierAllowed_def)

lemma admitted_keys_mono:
  assumes "A \<subseteq> A'"
  shows "key ` set (snd (admitLoop key (\<lambda>b. gate A inc exc (tr b) (key b)) bs ({}, [])))
         \<subseteq> key ` set (snd (admitLoop key (\<lambda>b. gate A' inc exc (tr b) (key b)) bs ({}, [])))"
proof -
  have "{b \<in> set bs. gate A inc exc (tr b) (key b)} \<subseteq> {b \<in> set bs. gate A' inc exc (tr b) (key b)}"
    using assms gate_mono by blast
  then show ?thesis
    unfolding admitLoop_keys_init by (rule image_mono)
qed

lemma tier_core_rec: "set (TIER_HIERARCHY Core) \<subseteq> set (TIER_HIERARCHY Recommended)"
  by simp

lemma tier_rec_opt: "set (TIER_HIERARCHY Recommended) \<subseteq> set (TIER_HIERARCHY Optional)"
  by simp

lemma claudeMd_ids_mono:
  assumes "set (TIER_HIERARCHY t) \<subseteq> set (TIER_HIERARCHY t')"
  shows "cm_id ` set (claudeMdBlocks (composeWith src tags allTemplates (atTier c t)))
     \<subseteq> cm_id ` set (claudeMdBlocks (composeWith src tags allTemplates (atTier c t')))"
  unfolding claudeMdBlocks_compose allowedOf_atTier includeListOf_atTier excludeListOf_atTier
  by (rule admitted_keys_mono [OF assms])

lemma nfr_ids_mono:
  assumes "set (TIER_HIERARCHY t) \<subseteq> set (TIER_HIERARCHY t')"
  shows "nfr_id ` set (nfrBlocks (composeWith src tags allTemplates (atTier c t)))
     \<subseteq> nfr_id ` set (nfrBlocks (composeWith src tags allTemplates (atTier c t')))"
  unfolding nfrBlocks_compose allowedOf_atTier includeListOf_atTier excludeListOf_atTier
  by (rule admitted_keys_mono [OF assms])

lemma review_ids_mono:
  assumes "set (TIER_HIERARCHY t) \<subseteq> set (TIER_HIERARCHY t')"
  shows "rv_id ` set (reviewBlocks (composeWith src tags allTemplates (atTier c t)))
     \<subseteq> rv_id ` set (reviewBlocks (composeWith src tags allTemplates (atTier c t')))"
  unfolding reviewBlocks_compose allowedOf_atTier includeListOf_atTier excludeListOf_atTier
  by (rule admitted_keys_mono [OF assms])

text \<open>
  Claim C6, as stated: the output at tier core is a subset of the output at tier
  optional, per kind, also when the dedup by first-seen picks fragments of one id from
  different tags. It fails: UNIVERSAL carries the id \<open>shared\<close> on an optional block and
  API carries it on a core block; at tier core the block of API is in the output, at
  tier optional the block of UNIVERSAL takes its place.
\<close>

theorem tier_monotonicity_counterexample:
  "claudeMdBlocks (composeTemplates [API] tieredStore (atTier plainConfig Core))
     = [makeBlock ''shared'' ''from api'' (Some Core)]
   \<and> claudeMdBlocks (composeTemplates [API] tieredStore (atTier plainConfig Optional))
     = [makeBlock ''shared'' ''from universal'' (Some Optional)]
   \<and> \<not> set (claudeMdBlocks (composeTemplates [API] tieredStore (atTier plainConfig Core)))
        \<subseteq> set (claudeMdBlocks (composeTemplates [API] tieredStore (atTier plainConfig Optional)))"
  by (simp add: compose_defs tieredStore_def plainConfig_def atTier_def example_defs)

text \<open>
  Claim C6, amended. For every store, tag list and configuration, the ids of the
  instruction, requirement and review blocks in the output at tier core are among the
  ids at tier recommended, which are among the ids at tier optional; the structure
  entries and the hooks are the same at the three tiers.
\<close>

theorem tier_monotone_ids:
  "cm_id ` set (claudeMdBlocks (composeTemplates tags allTemplates (atTier c Core)))
     \<subseteq> cm_id ` set (claudeMdBlocks (composeTemplates tags allTemplates (atTier c Recommended)))
   \<and> cm_id ` set (claudeMdBlocks (composeTemplates tags allTemplates (atTier c Recommended)))
     \<subseteq> cm_id ` set (claudeMdBlocks (composeTemplates tags allTemplates (atTier c Optional)))
   \<and> nfr_id ` set (nfrBlocks (composeTemplates tags allTemplates (atTier c Core)))
     \<subseteq> nfr_id ` set (nfrBlocks (composeTemplates tags allTemplates (atTier c Recommended)))
   \<and> nfr_id ` set (nfrBlocks (composeTemplates tags allTemplates (atTier c Recommended)))
     \<subseteq> nfr_id ` set (nfrBlocks (composeTemplates tags allTemplates (atTier c Optional)))
   \<and> rv_id ` set (reviewBlocks (composeTemplates tags allTemplates (atTier c Core)))
     \<subseteq> rv_id ` set (reviewBlocks (composeTemplates tags allTemplates (atTier c Recommended)))
   \<and> rv_id ` set (reviewBlocks (composeTemplates tags allTemplates (atTier c Recommended)))
     \<subseteq> rv_id ` set (reviewBlocks (composeTemplates tags allTemplates (atTier c Optional)))
   \<and> structureEntries (composeTemplates tags allTemplates (atTier c Core))
     = structureEntries (composeTemplates tags allTemplates (atTier c Recommended))
   \<and> structureEntries (composeTemplates tags allTemplates (atTier c Recommended))
     = structureEntries (composeTemplates tags allTemplates (atTier c Optional))
   \<and> hooks (composeTemplates tags allTemplates (atTier c Core))
     = hooks (composeTemplates tags allTemplates (atTier c Recommended))
   \<and> hooks (composeTemplates tags allTemplates (atTier c Recommended))
     = hooks (composeTemplates tags allTemplates (atTier c Optional))"
  unfolding composeTemplates_def
  by (intro conjI claudeMd_ids_mono nfr_ids_mono review_ids_mono tier_core_rec tier_rec_opt
      hooks_any_options structureEntries_any_options)

theorem tier_monotone_ids_witness:
  "cm_id ` set (claudeMdBlocks (composeTemplates [API] tieredStore (atTier plainConfig Core)))
     \<subseteq> cm_id ` set (claudeMdBlocks (composeTemplates [API] tieredStore
                        (atTier plainConfig Recommended)))
   \<and> cm_id ` set (claudeMdBlocks (composeTemplates [API] tieredStore (atTier plainConfig Core)))
     = {''shared''}"
  using tier_monotone_ids [of "[API]" tieredStore plainConfig]
  by (simp add: compose_defs tieredStore_def plainConfig_def atTier_def example_defs)

section \<open>A source file that does not parse\<close>

lemmas loader_defs = loadAllTemplatesWithExtras_def loadAllTemplates_def loadTagTemplateSet_def
  loadIfExists_def loadYamlFile_def andThen_def tagDirNameToTag_def existsSync_def
  OBJECT_PROTOTYPE_MEMBERS_def
  mergeTagTemplateSet_def mergeInstructionTemplates_def mergeNfrTemplates_def
  mergeHookTemplates_def mergeReviewTemplates_def

lemmas demo_defs = demoFs_def universalDir_def apiDir_def brokenApiDir_def
  communityUniversalDir_def emptyTagDir_def instructionsTemplate_def describedEntry_def
  structureTemplate_def makeBlock_def makeHook_def makeTemplateSet_def
  loadedUniversal_def loadedCommunity_def

lemma loadIfExists_Inl:
  "(\<exists>e. loadIfExists p f = Inl e) = unparsable f"
  by (auto simp: loadIfExists_def unparsable_def loadYamlFile_def andThen_def
      split: option.splits YamlSource.splits)

















text \<open>
  A directory named after a member of \<open>Object.prototype\<close> is loaded like a tag
  directory, under the key of that member.
\<close>

lemma inherited_name_is_loaded:
  "tagDirNameToTag ''constructor'' = Some (Inherited ''constructor'')
   \<and> tagDirNameToTag ''api'' = Some (Known API)
   \<and> tagDirNameToTag ''docs'' = None"
  by (simp add: tagDirNameToTag_def OBJECT_PROTOTYPE_MEMBERS_def)




section \<open>The merge of extension directories\<close>


























section \<open>The resolved tag set\<close>

lemmas refresh_defs = analyzeDrift_def refreshProjectHandler_def computeUpdatedTags_def
  setAdd_def setDelete_def SUGGEST_THRESHOLD_def demoWorld_def refreshArgs_def
  apiDetection_def mobileDetection_def plainConfig_def demoReport_def

lemma set_setAdd: "set (setAdd x s) = insert x (set s)"
  by (auto simp: setAdd_def)

lemma set_fold_setAdd: "set (fold setAdd xs s) = set s \<union> set xs"
  by (induction xs arbitrary: s) (auto simp: set_setAdd)

lemma set_fold_suggest:
  "set (fold (\<lambda>s tagSet. if P s then setAdd (f s) tagSet else tagSet) suggestions tagSet)
   = set tagSet \<union> f ` {s \<in> set suggestions. P s}"
  by (induction suggestions arbitrary: tagSet) (auto simp: set_setAdd)

lemma set_fold_remove:
  "set (fold (\<lambda>t tagSet. if t \<noteq> UNIVERSAL then setDelete t tagSet else tagSet) ts tagSet)
   = set tagSet - (set ts - {UNIVERSAL})"
  by (induction ts arbitrary: tagSet) (auto simp: setDelete_def)

lemma set_computeUpdatedTags:
  "set (computeUpdatedTags currentTags suggestions addTags removeTags)
   = insert UNIVERSAL
       ((set currentTags \<union> det_tag ` {s \<in> set suggestions. 0.6 \<le> det_confidence s}
           \<union> (case addTags of None \<Rightarrow> {} | Some ts \<Rightarrow> set ts))
        - ((case removeTags of None \<Rightarrow> {} | Some ts \<Rightarrow> set ts) - {UNIVERSAL}))"
  by (simp add: computeUpdatedTags_def Let_def set_setAdd set_fold_setAdd set_fold_suggest
      set_fold_remove split: option.splits)

lemma detectLoop_fst:
  "fst (detectLoop currentTags ds (suggestions, detected))
   = suggestions @ filter (\<lambda>d. SUGGEST_THRESHOLD \<le> det_confidence d
                                 \<and> det_tag d \<notin> set currentTags) ds"
  by (induction ds arbitrary: suggestions detected) simp_all

lemma detectLoop_snd:
  "snd (detectLoop currentTags ds (suggestions, detected)) = detected \<union> det_tag ` set ds"
  by (induction ds arbitrary: suggestions detected) simp_all

lemma fold_skip:
  "\<not> P d \<Longrightarrow>
   fold (\<lambda>s tagSet. if P s then setAdd (f s) tagSet else tagSet)
     (filter (\<lambda>s. s \<noteq> d) suggestions) tagSet
   = fold (\<lambda>s tagSet. if P s then setAdd (f s) tagSet else tagSet) suggestions tagSet"
  by (induction suggestions arbitrary: tagSet) auto

lemma computeUpdatedTags_skip:
  assumes "\<not> 0.6 \<le> det_confidence d"
  shows "computeUpdatedTags currentTags (filter (\<lambda>s. s \<noteq> d) suggestions) addTags removeTags
   = computeUpdatedTags currentTags suggestions addTags removeTags"
  unfolding computeUpdatedTags_def Let_def
  using fold_skip [of "\<lambda>s. 0.6 \<le> det_confidence s" d det_tag suggestions, OF assms]
  by presburger

lemma analyzeDrift_fields:
  assumes "analyzeDrift w projectDir cf args = Inr report"
  shows "dr_currentTags report = (case cfg_tags cf of None \<Rightarrow> [UNIVERSAL] | Some ts \<Rightarrow> ts)"
    and "dr_newTagSuggestions report
         = filter (\<lambda>d. SUGGEST_THRESHOLD \<le> det_confidence d
                        \<and> det_tag d \<notin> set (dr_currentTags report))
             (w_analyzeProject w projectDir)"
  using assms
  by (auto simp: analyzeDrift_def Let_def andThen_def detectLoop_fst split: sum.splits)


lemma handler_fields:
  assumes "refreshProjectHandler w args = Inr (Refreshed drift updatedConfig composed)"
  shows "\<exists>cf. w_loadUserOverrides w (project_dir args) = Some cf
     \<and> analyzeDrift w (project_dir args) cf args = Inr drift
     \<and> cfg_tags updatedConfig = Some (computeUpdatedTags (dr_currentTags drift)
          (dr_newTagSuggestions drift) (add_tags args) (remove_tags args))"
  using assms
  by (auto simp: refreshProjectHandler_def Let_def andThen_def split: option.splits sum.splits)

text \<open>
  Claim C8. For every input to the resolution of the tag set (any current tags, any
  suggestions, any explicit add list and any explicit remove list, also one that holds
  the universal tag), the resolved tag set contains the universal tag; so does the tag
  list of the updated configuration of every refresh run that returns one.
\<close>

theorem universal_never_removed:
  "UNIVERSAL \<in> set (computeUpdatedTags currentTags suggestions addTags removeTags)
   \<and> (case refreshProjectHandler w args of
         Inr (Refreshed drift updatedConfig composed) \<Rightarrow>
           (case cfg_tags updatedConfig of None \<Rightarrow> False | Some ts \<Rightarrow> UNIVERSAL \<in> set ts)
       | other \<Rightarrow> True)"
proof -
  have "case cfg_tags updatedConfig of None \<Rightarrow> False | Some ts \<Rightarrow> UNIVERSAL \<in> set ts"
    if "refreshProjectHandler w args = Inr (Refreshed drift updatedConfig composed)"
    for drift updatedConfig composed
    using handler_fields [OF that] by (auto simp: set_computeUpdatedTags)
  then show ?thesis
    by (auto simp: set_computeUpdatedTags split: sum.splits RefreshOutcome.splits)
qed


text \<open>
  Claim C7, as stated: in every refresh pass, every detection for a tag that is not
  configured, with confidence at least 0.6, is added to the resolved tag set. It fails
  when the explicit remove list names the tag: API is detected with confidence 0.65
  and is among the suggestions, and the resolved tag set is the universal tag alone.
\<close>

theorem auto_add_counterexample:
  "resolvedTags (refreshProjectHandler demoWorld (refreshArgs (Some [API]))) = Some [UNIVERSAL]
   \<and> map_option dr_newTagSuggestions
        (reportOf (refreshProjectHandler demoWorld (refreshArgs (Some [API]))))
      = Some [apiDetection, mobileDetection]
   \<and> 0.6 \<le> det_confidence apiDetection
   \<and> det_tag apiDetection = API"
  by (simp add: refresh_defs resolvedTags_def reportOf_def loader_defs demo_defs compose_defs)

text \<open>
  Claim C7, amended. In every refresh pass that returns a report, a detection for a
  tag that is not configured, with confidence at least 0.6, is in the resolved tag set
  unless the explicit remove list names its tag (the removals run after the automatic
  additions); a detection with confidence at least 0.5 and below 0.6 is among the
  suggestions of the drift report and does not change the tag set: the resolved tag
  list is what it is without that suggestion.
\<close>

theorem auto_add_unless_removed:
  assumes "reportOf (refreshProjectHandler w args) = Some drift"
    and "d \<in> set (w_analyzeProject w (project_dir args))"
    and "det_tag d \<notin> set (dr_currentTags drift)"
  shows "\<exists>resolved. resolvedTags (refreshProjectHandler w args) = Some resolved
     \<and> (0.6 \<le> det_confidence d
          \<and> det_tag d \<notin> (case remove_tags args of None \<Rightarrow> {} | Some ts \<Rightarrow> set ts)
        \<longrightarrow> det_tag d \<in> set resolved)
     \<and> (0.5 \<le> det_confidence d \<and> det_confidence d < 0.6
        \<longrightarrow> d \<in> set (dr_newTagSuggestions drift)
            \<and> resolved = computeUpdatedTags (dr_currentTags drift)
                 (filter (\<lambda>s. s \<noteq> d) (dr_newTagSuggestions drift))
                 (add_tags args) (remove_tags args))"
proof -
  from assms(1) obtain updatedConfig composed where
    run: "refreshProjectHandler w args = Inr (Refreshed drift updatedConfig composed)"
    by (auto simp: reportOf_def split: sum.splits RefreshOutcome.splits)
  from handler_fields [OF run] obtain cf where
    drift: "analyzeDrift w (project_dir args) cf args = Inr drift"
    and tags: "cfg_tags updatedConfig = Some (computeUpdatedTags (dr_currentTags drift)
          (dr_newTagSuggestions drift) (add_tags args) (remove_tags args))"
    by blast
  note sug = analyzeDrift_fields(2) [OF drift]
  have listed: "d \<in> set (dr_newTagSuggestions drift)" if "0.5 \<le> det_confidence d"
    using that assms(2,3) by (subst sug) (simp add: SUGGEST_THRESHOLD_def)
  have high: "det_tag d \<in> set (computeUpdatedTags (dr_currentTags drift)
          (dr_newTagSuggestions drift) (add_tags args) (remove_tags args))"
    if "0.6 \<le> det_confidence d"
      and "det_tag d \<notin> (case remove_tags args of None \<Rightarrow> {} | Some ts \<Rightarrow> set ts)"
  proof -
    from that(1) have "0.5 \<le> det_confidence d" by simp
    from listed [OF this] that show ?thesis
      unfolding set_computeUpdatedTags by blast
  qed
  have mid: "computeUpdatedTags (dr_currentTags drift) (dr_newTagSuggestions drift)
          (add_tags args) (remove_tags args)
        = computeUpdatedTags (dr_currentTags drift)
                 (filter (\<lambda>s. s \<noteq> d) (dr_newTagSuggestions drift))
                 (add_tags args) (remove_tags args)"
    if "det_confidence d < 0.6"
    using that computeUpdatedTags_skip [of d] by simp
  from run tags have "resolvedTags (refreshProjectHandler w args)
      = Some (computeUpdatedTags (dr_currentTags drift)
          (dr_newTagSuggestions drift) (add_tags args) (remove_tags args))"
    by (simp add: resolvedTags_def)
  with listed high mid show ?thesis by simp
qed

theorem auto_add_unless_removed_witness:
  "reportOf (refreshProjectHandler demoWorld (refreshArgs None)) = Some demoReport
   \<and> apiDetection \<in> set (w_analyzeProject demoWorld ''project'')
   \<and> det_tag apiDetection \<notin> set (dr_currentTags demoReport)
   \<and> 0.6 \<le> det_confidence apiDetection
   \<and> (\<exists>resolved. resolvedTags (refreshProjectHandler demoWorld (refreshArgs None))
                     = Some resolved \<and> det_tag apiDetection \<in> set resolved)
   \<and> mobileDetection \<in> set (w_analyzeProject demoWorld ''project'')
   \<and> det_tag mobileDetection \<notin> set (dr_currentTags demoReport)
   \<and> 0.5 \<le> det_confidence mobileDetection \<and> det_confidence mobileDetection < 0.6
   \<and> mobileDetection \<in> set (dr_newTagSuggestions demoReport)"
proof -
  have r: "reportOf (refreshProjectHandler demoWorld (refreshArgs None)) = Some demoReport"
    by (simp add: refresh_defs reportOf_def loader_defs demo_defs compose_defs)
  have a: "apiDetection \<in> set (w_analyzeProject demoWorld (project_dir (refreshArgs None)))"
    and m: "mobileDetection \<in> set (w_analyzeProject demoWorld (project_dir (refreshArgs None)))"
    by (simp_all add: demoWorld_def)
  have na: "det_tag apiDetection \<notin> set (dr_currentTags demoReport)"
    and nm: "det_tag mobileDetection \<notin> set (dr_currentTags demoReport)"
    by (simp_all add: demoReport_def apiDetection_def mobileDetection_def)
  have hi: "0.6 \<le> det_confidence apiDetection"
    and lo: "0.5 \<le> det_confidence mobileDetection \<and> det_confidence mobileDetection < 0.6"
    by (simp_all add: apiDetection_def mobileDetection_def)
  have nr: "remove_tags (refreshArgs None) = None" and pd: "project_dir (refreshArgs None) = ''project''"
    by (simp_all add: refreshArgs_def)
  from auto_add_unless_removed [OF r a na] hi nr
  have one: "\<exists>resolved. resolvedTags (refreshProjectHandler demoWorld (refreshArgs None))
                     = Some resolved \<and> det_tag apiDetection \<in> set resolved"
    by auto
  from auto_add_unless_removed [OF r m nm] lo
  have two: "mobileDetection \<in> set (dr_newTagSuggestions demoReport)"
    by auto
  from r a m na nm hi lo one two pd show ?thesis by simp
qed

section \<open>The count delta of the drift report\<close>

lemma map_of_instructionsOnly:
  "map_of (instructionsOnly allTemplates) key
   = map_option (\<lambda>templateSet. templateSet\<lparr> ts_nfr := None, ts_structure := None,
                                   ts_hooks := None, ts_review := None \<rparr>)
       (map_of allTemplates key)"
  by (induction allTemplates) (auto simp: instructionsOnly_def)

lemma visited_instructionsOnly:
  "visited (instructionBlocksOf instructionsOrClaudeMd) (instructionsOnly allTemplates) tags
   = visited (instructionBlocksOf instructionsOrClaudeMd) allTemplates tags"
  by (induction tags)
     (auto simp: map_of_instructionsOnly instructionBlocksOf_def instructionsOrClaudeMd_def
        split: option.splits)

lemma claudeMdBlocks_instructionsOnly:
  "claudeMdBlocks (composeTemplates_rev tags (instructionsOnly allTemplates) options)
   = claudeMdBlocks (composeTemplates_rev tags allTemplates options)"
  by (simp add: composeTemplates_rev_def claudeMdBlocks_compose visited_instructionsOnly)

lemma analyzeDrift_delta:
  assumes "analyzeDrift w projectDir cf args = Inr report"
  shows "\<exists>allTemplates.
     loadAllTemplatesWithExtras (w_fs w) (w_builtInDir w) (cfg_templateDirs cf) = Inr allTemplates
     \<and> dr_blockCountDelta report =
         \<lparr> bcd_before = length (claudeMdBlocks (composeTemplates_rev (dr_currentTags report)
              allTemplates (Some \<lparr> config = Some cf \<rparr>))),
           bcd_after = length (claudeMdBlocks (composeTemplates_rev
              (computeUpdatedTags (dr_currentTags report) (dr_newTagSuggestions report)
                 (add_tags args) (remove_tags args))
              allTemplates
              (Some \<lparr> config = Some (cf\<lparr> cfg_tags := Some (computeUpdatedTags
                   (dr_currentTags report) (dr_newTagSuggestions report)
                   (add_tags args) (remove_tags args)),
                 cfg_tier := Some (case arg_tier args of
                     None \<Rightarrow> (case cfg_tier cf of None \<Rightarrow> Recommended | Some t \<Rightarrow> t)
                   | Some t \<Rightarrow> t) \<rparr>) \<rparr>))) \<rparr>"
  using assms
  by (auto simp: analyzeDrift_def Let_def andThen_def split: sum.splits)

text \<open>
  Claim C4, as stated: the drift report gives the before/after count difference for
  every fragment kind, not for one kind only. It fails: the report of the example
  project holds one pair of counts, 1 and 2, the numbers of instruction blocks of the
  two compositions, while the hooks go from 1 to 3 between the same two compositions.
\<close>

theorem count_delta_counterexample:
  "analyzeDrift demoWorld ''project'' plainConfig (refreshArgs None) = Inr demoReport
   \<and> dr_blockCountDelta demoReport = \<lparr> bcd_before = 1, bcd_after = 2 \<rparr>
   \<and> composedCounts (loadAllTemplatesWithExtras demoFs ''/srv/app/templates'' None) [UNIVERSAL]
        (Some \<lparr> config = Some plainConfig \<rparr>) = Some (1, 2, 0, 1, 0)
   \<and> composedCounts (loadAllTemplatesWithExtras demoFs ''/srv/app/templates'' None) [UNIVERSAL, API]
        (Some \<lparr> config = Some (plainConfig\<lparr> cfg_tags := Some [UNIVERSAL, API],
                                             cfg_tier := Some Recommended \<rparr>) \<rparr>)
      = Some (2, 2, 0, 3, 0)"
  by (simp add: refresh_defs loader_defs demo_defs compose_defs composedCounts_def
      kindCounts_def)

text \<open>
  Claim C4, amended. For every drift analysis that returns a report, the templates were
  loaded with the configuration's extra directories and composed twice, once under the
  existing configuration with its tags and once under the proposed tags and the
  requested tier, and \<open>blockCountDelta\<close> is the pair of the numbers of instruction
  blocks of the two compositions. No other kind is counted: the pair is what it is for
  the store stripped of its requirement, structure, hook and review sections.
\<close>

theorem count_delta_instruction_blocks_only:
  assumes "analyzeDrift w projectDir cf args = Inr report"
  shows "\<exists>allTemplates.
     loadAllTemplatesWithExtras (w_fs w) (w_builtInDir w) (cfg_templateDirs cf) = Inr allTemplates
     \<and> dr_blockCountDelta report =
         \<lparr> bcd_before = length (claudeMdBlocks (composeTemplates_rev (dr_currentTags report)
              (instructionsOnly allTemplates) (Some \<lparr> config = Some cf \<rparr>))),
           bcd_after = length (claudeMdBlocks (composeTemplates_rev
              (computeUpdatedTags (dr_currentTags report) (dr_newTagSuggestions report)
                 (add_tags args) (remove_tags args))
              (instructionsOnly allTemplates)
              (Some \<lparr> config = Some (cf\<lparr> cfg_tags := Some (computeUpdatedTags
                   (dr_currentTags report) (dr_newTagSuggestions report)
                   (add_tags args) (remove_tags args)),
                 cfg_tier := Some (case arg_tier args of
                     None \<Rightarrow> (case cfg_tier cf of None \<Rightarrow> Recommended | Some t \<Rightarrow> t)
                   | Some t \<Rightarrow> t) \<rparr>) \<rparr>))) \<rparr>"
  using analyzeDrift_delta [OF assms] by (simp only: claudeMdBlocks_instructionsOnly)

theorem count_delta_instruction_blocks_only_witness:
  "analyzeDrift demoWorld ''project'' plainConfig (refreshArgs None) = Inr demoReport
   \<and> (\<exists>allTemplates.
         loadAllTemplatesWithExtras demoFs ''/srv/app/templates'' None = Inr allTemplates
         \<and> length (claudeMdBlocks (composeTemplates_rev [UNIVERSAL]
               (instructionsOnly allTemplates) (Some \<lparr> config = Some plainConfig \<rparr>))) = 1)"
proof -
  have r: "analyzeDrift demoWorld ''project'' plainConfig (refreshArgs None) = Inr demoReport"
    by (simp add: refresh_defs loader_defs demo_defs compose_defs)
  from count_delta_instruction_blocks_only [OF r] r show ?thesis
    by (auto simp: demoWorld_def plainConfig_def demoReport_def)
qed

section \<open>The empty tag list\<close>

lemma admitLoop_filter:
  "distinct (map key bs) \<Longrightarrow> fst st \<inter> key ` set bs = {} \<Longrightarrow>
   snd (admitLoop key ok bs st) = snd st @ filter ok bs"
  by (induction key ok bs st rule: admitLoop.induct) auto

lemma admitLoop_pinned:
  "set (snd (admitLoop key ok bs ({}, []))) \<subseteq> set bs
   \<and> key ` set (snd (admitLoop key ok bs ({}, []))) = key ` {b \<in> set bs. ok b}
   \<and> (distinct (map key bs) \<longrightarrow> snd (admitLoop key ok bs ({}, [])) = filter ok bs)"
  using admitLoop_subset_init [of key ok bs] admitLoop_keys_init [of key ok bs]
    admitLoop_filter [of key bs "({}, [])" ok]
  by auto

lemma normalizeTagOrder_empty: "normalizeTagOrder [] = [UNIVERSAL]"
  by (simp add: normalizeTagOrder_def)

lemma visited_universal:
  "visited sel allTemplates [UNIVERSAL]
   = (case map_of allTemplates (Known UNIVERSAL) of None \<Rightarrow> [] | Some u \<Rightarrow> sel u)"
  by (simp split: option.splits)

lemma compose_empty_same:
  "composeTemplates [] allTemplates options = composeTemplates [UNIVERSAL] allTemplates options"
  by (simp add: normalizeTagOrder_def composeTemplates_def composeWith_def)

lemma compose_empty_without_universal:
  "map_of allTemplates (Known UNIVERSAL) = None \<Longrightarrow>
   composeTemplates [] allTemplates options
   = \<lparr> claudeMdBlocks = [], structureEntries = [], nfrBlocks = [], hooks = [],
       reviewBlocks = [] \<rparr>"
  by (simp add: composeTemplates_def composeWith_def normalizeTagOrder_empty initialState_def)

lemma compose_empty_claudeMd:
  "map_of allTemplates (Known UNIVERSAL) = Some u \<Longrightarrow>
   set (claudeMdBlocks (composeTemplates [] allTemplates options))
     \<subseteq> set (instructionBlocksOf ts_claudeMd u)
   \<and> cm_id ` set (claudeMdBlocks (composeTemplates [] allTemplates options))
     = cm_id ` {b \<in> set (instructionBlocksOf ts_claudeMd u).
                 gate (allowedOf options) (includeListOf (optConfig options))
                   (excludeListOf (optConfig options)) (cm_tier b) (cm_id b)}
   \<and> (distinct (map cm_id (instructionBlocksOf ts_claudeMd u)) \<longrightarrow>
        claudeMdBlocks (composeTemplates [] allTemplates options)
        = filter (\<lambda>b. gate (allowedOf options) (includeListOf (optConfig options))
                        (excludeListOf (optConfig options)) (cm_tier b) (cm_id b))
            (instructionBlocksOf ts_claudeMd u))"
  unfolding composeTemplates_def claudeMdBlocks_compose normalizeTagOrder_empty visited_universal
  by (simp only: option.case) (rule admitLoop_pinned)

lemma compose_empty_nfr:
  "map_of allTemplates (Known UNIVERSAL) = Some u \<Longrightarrow>
   set (nfrBlocks (composeTemplates [] allTemplates options)) \<subseteq> set (nfrOf u)
   \<and> nfr_id ` set (nfrBlocks (composeTemplates [] allTemplates options))
     = nfr_id ` {b \<in> set (nfrOf u).
                  gate (allowedOf options) (includeListOf (optConfig options))
                    (excludeListOf (optConfig options)) (nfr_tier b) (nfr_id b)}
   \<and> (distinct (map nfr_id (nfrOf u)) \<longrightarrow>
        nfrBlocks (composeTemplates [] allTemplates options)
        = filter (\<lambda>b. gate (allowedOf options) (includeListOf (optConfig options))
                        (excludeListOf (optConfig options)) (nfr_tier b) (nfr_id b))
            (nfrOf u))"
  unfolding composeTemplates_def nfrBlocks_compose normalizeTagOrder_empty visited_universal
  by (simp only: option.case) (rule admitLoop_pinned)

lemma compose_empty_review:
  "map_of allTemplates (Known UNIVERSAL) = Some u \<Longrightarrow>
   set (reviewBlocks (composeTemplates [] allTemplates options)) \<subseteq> set (reviewOf u)
   \<and> rv_id ` set (reviewBlocks (composeTemplates [] allTemplates options))
     = rv_id ` {b \<in> set (reviewOf u).
                 gate (allowedOf options) (includeListOf (optConfig options))
                   (excludeListOf (optConfig options)) (rv_tier b) (rv_id b)}
   \<and> (distinct (map rv_id (reviewOf u)) \<longrightarrow>
        reviewBlocks (composeTemplates [] allTemplates options)
        = filter (\<lambda>b. gate (allowedOf options) (includeListOf (optConfig options))
                        (excludeListOf (optConfig options)) (rv_tier b) (rv_id b))
            (reviewOf u))"
  unfolding composeTemplates_def reviewBlocks_compose normalizeTagOrder_empty visited_universal
  by (simp only: option.case) (rule admitLoop_pinned)

lemma compose_empty_hooks:
  "map_of allTemplates (Known UNIVERSAL) = Some u \<Longrightarrow>
   set (hooks (composeTemplates [] allTemplates options)) \<subseteq> set (hooksOf u)
   \<and> hk_name ` set (hooks (composeTemplates [] allTemplates options))
     = hk_name ` set (hooksOf u)
   \<and> (distinct (map hk_name (hooksOf u)) \<longrightarrow>
        hooks (composeTemplates [] allTemplates options) = hooksOf u)"
  unfolding composeTemplates_def hooks_compose normalizeTagOrder_empty visited_universal
  using admitLoop_pinned [of hk_name "\<lambda>h. True" "hooksOf u"]
  by simp

lemma compose_empty_structure:
  "map_of allTemplates (Known UNIVERSAL) = Some u \<Longrightarrow>
   set (structureEntries (composeTemplates [] allTemplates options)) \<subseteq> set (structureOf u)
   \<and> se_path ` set (structureEntries (composeTemplates [] allTemplates options))
     = se_path ` set (structureOf u)
   \<and> (distinct (map se_path (structureOf u)) \<longrightarrow>
        structureEntries (composeTemplates [] allTemplates options) = structureOf u)"
  unfolding composeTemplates_def structureEntries_compose normalizeTagOrder_empty
    visited_universal
  using admitLoop_pinned [of se_path "\<lambda>e. True" "structureOf u"]
  by simp

text \<open>
  Claim C10. For the empty requested tag list the tag list normalizes to exactly the
  single universal tag, so \<open>composeTemplates\<close> returns (it is a total function) what it
  returns for the list holding only the universal tag, and that is the universal tag's
  fragments: when the store has a template set for UNIVERSAL, each kind of the output
  is made of that set's fragments, it holds every id (path, name) of them that passes
  the tier and include/exclude tests of its kind, and when the ids of the set's
  fragments of a kind are pairwise different it is exactly the list of those that pass,
  in store order (all of them for structure entries and hooks). The output is empty in
  every kind only when the store has no template set for UNIVERSAL or none of its
  fragments passes.
\<close>

theorem composeTemplates_empty_tags:
  "normalizeTagOrder [] = [UNIVERSAL]
   \<and> composeTemplates [] allTemplates options = composeTemplates [UNIVERSAL] allTemplates options
   \<and> (map_of allTemplates (Known UNIVERSAL) = None \<longrightarrow>
        composeTemplates [] allTemplates options
        = \<lparr> claudeMdBlocks = [], structureEntries = [], nfrBlocks = [], hooks = [],
            reviewBlocks = [] \<rparr>)
   \<and> (map_of allTemplates (Known UNIVERSAL) = Some u \<longrightarrow>
        (set (claudeMdBlocks (composeTemplates [] allTemplates options))
           \<subseteq> set (instructionBlocksOf ts_claudeMd u)
         \<and> cm_id ` set (claudeMdBlocks (composeTemplates [] allTemplates options))
           = cm_id ` {b \<in> set (instructionBlocksOf ts_claudeMd u).
                       gate (allowedOf options) (includeListOf (optConfig options))
                         (excludeListOf (optConfig options)) (cm_tier b) (cm_id b)}
         \<and> (distinct (map cm_id (instructionBlocksOf ts_claudeMd u)) \<longrightarrow>
              claudeMdBlocks (composeTemplates [] allTemplates options)
              = filter (\<lambda>b. gate (allowedOf options) (includeListOf (optConfig options))
                              (excludeListOf (optConfig options)) (cm_tier b) (cm_id b))
                  (instructionBlocksOf ts_claudeMd u)))
        \<and> (set (structureEntries (composeTemplates [] allTemplates options))
              \<subseteq> set (structureOf u)
           \<and> se_path ` set (structureEntries (composeTemplates [] allTemplates options))
             = se_path ` set (structureOf u)
           \<and> (distinct (map se_path (structureOf u)) \<longrightarrow>
                structureEntries (composeTemplates [] allTemplates options) = structureOf u))
        \<and> (set (nfrBlocks (composeTemplates [] allTemplates options)) \<subseteq> set (nfrOf u)
           \<and> nfr_id ` set (nfrBlocks (composeTemplates [] allTemplates options))
             = nfr_id ` {b \<in> set (nfrOf u).
                          gate (allowedOf options) (includeListOf (optConfig options))
                            (excludeListOf (optConfig options)) (nfr_tier b) (nfr_id b)}
           \<and> (distinct (map nfr_id (nfrOf u)) \<longrightarrow>
                nfrBlocks (composeTemplates [] allTemplates options)
                = filter (\<lambda>b. gate (allowedOf options) (includeListOf (optConfig options))
                                (excludeListOf (optConfig options)) (nfr_tier b) (nfr_id b))
                    (nfrOf u)))
        \<and> (set (hooks (composeTemplates [] allTemplates options)) \<subseteq> set (hooksOf u)
           \<and> hk_name ` set (hooks (composeTemplates [] allTemplates options))
             = hk_name ` set (hooksOf u)
           \<and> (distinct (map hk_name (hooksOf u)) \<longrightarrow>
                hooks (composeTemplates [] allTemplates options) = hooksOf u))
        \<and> (set (reviewBlocks (composeTemplates [] allTemplates options)) \<subseteq> set (reviewOf u)
           \<and> rv_id ` set (reviewBlocks (composeTemplates [] allTemplates options))
             = rv_id ` {b \<in> set (reviewOf u).
                         gate (allowedOf options) (includeListOf (optConfig options))
                           (excludeListOf (optConfig options)) (rv_tier b) (rv_id b)}
           \<and> (distinct (map rv_id (reviewOf u)) \<longrightarrow>
                reviewBlocks (composeTemplates [] allTemplates options)
                = filter (\<lambda>b. gate (allowedOf options) (includeListOf (optConfig options))
                                (excludeListOf (optConfig options)) (rv_tier b) (rv_id b))
                    (reviewOf u))))"
proof -
  have none: "map_of allTemplates (Known UNIVERSAL) = None \<longrightarrow>
        composeTemplates [] allTemplates options
        = \<lparr> claudeMdBlocks = [], structureEntries = [], nfrBlocks = [], hooks = [],
            reviewBlocks = [] \<rparr>"
    by (rule impI) (rule compose_empty_without_universal)
  show ?thesis
  proof (rule conjI [OF normalizeTagOrder_empty conjI [OF compose_empty_same conjI [OF none]]],
      rule impI)
    assume u: "map_of allTemplates (Known UNIVERSAL) = Some u"
    show "(set (claudeMdBlocks (composeTemplates [] allTemplates options))
           \<subseteq> set (instructionBlocksOf ts_claudeMd u)
         \<and> cm_id ` set (claudeMdBlocks (composeTemplates [] allTemplates options))
           = cm_id ` {b \<in> set (instructionBlocksOf ts_claudeMd u).
                       gate (allowedOf options) (includeListOf (optConfig options))
                         (excludeListOf (optConfig options)) (cm_tier b) (cm_id b)}
         \<and> (distinct (map cm_id (instructionBlocksOf ts_claudeMd u)) \<longrightarrow>
              claudeMdBlocks (composeTemplates [] allTemplates options)
              = filter (\<lambda>b. gate (allowedOf options) (includeListOf (optConfig options))
                              (excludeListOf (optConfig options)) (cm_tier b) (cm_id b))
                  (instructionBlocksOf ts_claudeMd u)))
        \<and> (set (structureEntries (composeTemplates [] allTemplates options))
              \<subseteq> set (structureOf u)
           \<and> se_path ` set (structureEntries (composeTemplates [] allTemplates options))
             = se_path ` set (structureOf u)
           \<and> (distinct (map se_path (structureOf u)) \<longrightarrow>
                structureEntries (composeTemplates [] allTemplates options) = structureOf u))
        \<and> (set (nfrBlocks (composeTemplates [] allTemplates options)) \<subseteq> set (nfrOf u)
           \<and> nfr_id ` set (nfrBlocks (composeTemplates [] allTemplates options))
             = nfr_id ` {b \<in> set (nfrOf u).
                          gate (allowedOf options) (includeListOf (optConfig options))
                            (excludeListOf (optConfig options)) (nfr_tier b) (nfr_id b)}
           \<and> (distinct (map nfr_id (nfrOf u)) \<longrightarrow>
                nfrBlocks (composeTemplates [] allTemplates options)
                = filter (\<lambda>b. gate (allowedOf options) (includeListOf (optConfig options))
                                (excludeListOf (optConfig options)) (nfr_tier b) (nfr_id b))
                    (nfrOf u)))
        \<and> (set (hooks (composeTemplates [] allTemplates options)) \<subseteq> set (hooksOf u)
           \<and> hk_name ` set (hooks (composeTemplates [] allTemplates options))
             = hk_name ` set (hooksOf u)
           \<and> (distinct (map hk_name (hooksOf u)) \<longrightarrow>
                hooks (composeTemplates [] allTemplates options) = hooksOf u))
        \<and> (set (reviewBlocks (composeTemplates [] allTemplates options)) \<subseteq> set (reviewOf u)
           \<and> rv_id ` set (reviewBlocks (composeTemplates [] allTemplates options))
             = rv_id ` {b \<in> set (reviewOf u).
                         gate (allowedOf options) (includeListOf (optConfig options))
                           (excludeListOf (optConfig options)) (rv_tier b) (rv_id b)}
           \<and> (distinct (map rv_id (reviewOf u)) \<longrightarrow>
                reviewBlocks (composeTemplates [] allTemplates options)
                = filter (\<lambda>b. gate (allowedOf options) (includeListOf (optConfig options))
                                (excludeListOf (optConfig options)) (rv_tier b) (rv_id b))
                    (reviewOf u)))"
      by (rule conjI [OF compose_empty_claudeMd [OF u]
            conjI [OF compose_empty_structure [OF u]
              conjI [OF compose_empty_nfr [OF u]
                conjI [OF compose_empty_hooks [OF u] compose_empty_review [OF u]]]]])
  qed
qed

theorem composeTemplates_empty_tags_witness:
  "map_of gatedStore (Known UNIVERSAL) = Some gatedUniversal
   \<and> distinct (map hk_name (hooksOf gatedUniversal))
   \<and> distinct (map cm_id (instructionBlocksOf ts_claudeMd gatedUniversal))
   \<and> hooks (composeTemplates [] gatedStore None) = [makeHook ''lint'']
   \<and> claudeMdBlocks (composeTemplates [] gatedStore None)
     = [makeBlock ''keep-me'' ''Keep'' (Some Core), makeBlock ''lint'' ''Drop'' (Some Core)]
   \<and> map_of tieredStore (Known MOBILE) = None"
proof -
  have u: "map_of gatedStore (Known UNIVERSAL) = Some gatedUniversal"
    by (simp add: gatedStore_def)
  have dh: "distinct (map hk_name (hooksOf gatedUniversal))"
    and dc: "distinct (map cm_id (instructionBlocksOf ts_claudeMd gatedUniversal))"
    by (simp_all add: hooksOf_def instructionBlocksOf_def example_defs)
  have hs: "hooksOf gatedUniversal = [makeHook ''lint'']"
    by (simp add: hooksOf_def gatedUniversal_def makeTemplateSet_def)
  have cs: "filter (\<lambda>b. gate (allowedOf None) (includeListOf (optConfig None))
                (excludeListOf (optConfig None)) (cm_tier b) (cm_id b))
              (instructionBlocksOf ts_claudeMd gatedUniversal)
            = [makeBlock ''keep-me'' ''Keep'' (Some Core), makeBlock ''lint'' ''Drop'' (Some Core)]"
    by (simp add: instructionBlocksOf_def gate_def allowedOf_def optConfig_def tierLevelOf_def
        includeListOf_def excludeListOf_def DEFAULT_TIER_def isTierAllowed_def
        isBlockAllowed_def example_defs)
  have n: "map_of tieredStore (Known MOBILE) = None"
    by (simp add: tieredStore_def)
  note inner = composeTemplates_empty_tags [of gatedStore None gatedUniversal,
      THEN conjunct2, THEN conjunct2, THEN conjunct2, THEN mp, OF u]
  have hk: "hooks (composeTemplates [] gatedStore None) = hooksOf gatedUniversal"
    by (rule inner [THEN conjunct2, THEN conjunct2, THEN conjunct2, THEN conjunct1,
          THEN conjunct2, THEN conjunct2, THEN mp, OF dh])
  have cm: "claudeMdBlocks (composeTemplates [] gatedStore None)
            = filter (\<lambda>b. gate (allowedOf None) (includeListOf (optConfig None))
                (excludeListOf (optConfig None)) (cm_tier b) (cm_id b))
              (instructionBlocksOf ts_claudeMd gatedUniversal)"
    by (rule inner [THEN conjunct1, THEN conjunct2, THEN conjunct2, THEN mp, OF dc])
  have hk': "hooks (composeTemplates [] gatedStore None) = [makeHook ''lint'']"
    using hk hs by (rule trans)
  have cm': "claudeMdBlocks (composeTemplates [] gatedStore None)
     = [makeBlock ''keep-me'' ''Keep'' (Some Core), makeBlock ''lint'' ''Drop'' (Some Core)]"
    using cm cs by (rule trans)
  show ?thesis by (intro conjI u dh dc hk' cm' n)
qed

end
